theory Spec2Isabelle
  imports Main "HOL-Library.Sublist" "HOL-Library.Product_Lexorder"
begin

section \<open>Container Extractor\<close>

text \<open>
  A Python \<open>bytes\<close> value is a list of 8-bit characters. \<open>bytes.find\<close> and
  \<open>bytes.rfind\<close> return the lowest and the highest index at which the argument occurs,
  and \<open>-1\<close> when it does not occur; they are written out here by recursion on the
  searched sequence.
\<close>

type_synonym bytes = "char list"

fun bytes_find :: "bytes \<Rightarrow> bytes \<Rightarrow> int" where
  "bytes_find [] sub = (if sub = [] then 0 else - 1)"
| "bytes_find (x # xs) sub =
     (if prefix sub (x # xs) then 0
      else (let r = bytes_find xs sub in if r = - 1 then - 1 else r + 1))"

fun bytes_rfind :: "bytes \<Rightarrow> bytes \<Rightarrow> int" where
  "bytes_rfind [] sub = (if sub = [] then 0 else - 1)"
| "bytes_rfind (x # xs) sub =
     (let r = bytes_rfind xs sub in
      if r \<noteq> - 1 then r + 1
      else if prefix sub (x # xs) then 0 else - 1)"

text \<open>Python's \<open>xs[a:b]\<close>: negative bounds count from the end, and both are clipped.\<close>

definition py_slice :: "'a list \<Rightarrow> int \<Rightarrow> int \<Rightarrow> 'a list" where
  "py_slice xs a b =
     (let n = int (length xs);
          lo = (if a < 0 then max 0 (a + n) else min a n);
          hi = (if b < 0 then max 0 (b + n) else min b n)
      in take (nat (hi - lo)) (drop (nat lo) xs))"

definition extract_xml_from_xsig_bytes :: "bytes \<Rightarrow> bytes" where
  "extract_xml_from_xsig_bytes xsig_bytes =
     (let xml_start = bytes_find xsig_bytes ''<?xml'';
          xml_end = bytes_rfind xsig_bytes ''>'' + 1
      in if xml_start \<noteq> - 1 \<and> xml_end > xml_start
         then py_slice xsig_bytes xml_start xml_end
         else xsig_bytes)"

text \<open>
  The vocabulary of the specification: \<open>sub\<close> occurs in \<open>xs\<close> at index \<open>i\<close>; \<open>i\<close> is
  the first, respectively the last, such index.
\<close>

definition occurs_at :: "bytes \<Rightarrow> bytes \<Rightarrow> nat \<Rightarrow> bool" where
  "occurs_at sub xs i = (i \<le> length xs \<and> prefix sub (drop i xs))"

definition first_occurrence :: "bytes \<Rightarrow> bytes \<Rightarrow> nat \<Rightarrow> bool" where
  "first_occurrence sub xs i =
     (occurs_at sub xs i \<and> list_all (\<lambda>k. \<not> occurs_at sub xs k) [0..<i])"

definition last_occurrence :: "bytes \<Rightarrow> bytes \<Rightarrow> nat \<Rightarrow> bool" where
  "last_occurrence sub xs j =
     (occurs_at sub xs j \<and> list_all (\<lambda>k. \<not> occurs_at sub xs k) [Suc j..<Suc (length xs)])"

definition occurs :: "bytes \<Rightarrow> bytes \<Rightarrow> bool" where
  "occurs sub xs = list_ex (occurs_at sub xs) [0..<Suc (length xs)]"


section \<open>Text, dictionaries and exceptions\<close>

text \<open>
  A Python \<open>str\<close> is modelled as a list of characters, one per code point; the model
  covers the code points below 256, which include every character of the program's own
  literals. The accented letters of those literals are written by their code points.
\<close>

abbreviation a_acute :: char where "a_acute \<equiv> CHR 0xE1"
abbreviation e_acute :: char where "e_acute \<equiv> CHR 0xE9"
abbreviation i_acute :: char where "i_acute \<equiv> CHR 0xED"
abbreviation o_acute :: char where "o_acute \<equiv> CHR 0xF3"
abbreviation u_acute :: char where "u_acute \<equiv> CHR 0xFA"

text \<open>
  \<open>str.isspace\<close> on one character, restricted to code points below 256: the ASCII
  controls 9 to 13 and 28 to 31, the space, NEL (133) and the no-break space (160).
\<close>

definition isspace :: "char \<Rightarrow> bool" where
  "isspace c =
     (let n = (of_char c :: nat)
      in (9 \<le> n \<and> n \<le> 13) \<or> (28 \<le> n \<and> n \<le> 31) \<or> n = 32 \<or> n = 133 \<or> n = 160)"

definition strip :: "string \<Rightarrow> string" where
  "strip s = rev (dropWhile isspace (rev (dropWhile isspace s)))"

definition is_digit :: "char \<Rightarrow> bool" where
  "is_digit c = (c \<in> set ''0123456789'')"

definition digit_val :: "char \<Rightarrow> nat" where
  "digit_val c = of_char c - 48"

definition digit_char :: "nat \<Rightarrow> char" where
  "digit_char n = char_of (48 + n)"

fun dec_digits :: "nat \<Rightarrow> string" where
  "dec_digits n = (if n < 10 then [digit_char n] else dec_digits (n div 10) @ [digit_char (n mod 10)])"

declare dec_digits.simps [simp del]

text \<open>The zero-padded decimal fields of \<open>strftime\<close> (\<open>%d\<close>, \<open>%m\<close>, \<open>%H\<close>, \<open>%M\<close>), of
  width 2. The field \<open>%Y\<close> is the year in decimal without padding (\<open>dec_digits\<close>): the
  year 999 prints as \<open>999\<close>.\<close>

definition zero_pad :: "nat \<Rightarrow> nat \<Rightarrow> string" where
  "zero_pad w n = replicate (w - length (dec_digits n)) (CHR ''0'') @ dec_digits n"

text \<open>\<open>str.upper\<close>, on the ASCII letters (the names it is applied to are ASCII).\<close>

definition upper :: "string \<Rightarrow> string" where
  "upper s = map (\<lambda>c. let n = (of_char c :: nat) in if 97 \<le> n \<and> n \<le> 122 then char_of (n - 32) else c) s"

text \<open>A dictionary with string keys, in insertion order; \<open>d.get(k, default)\<close>.\<close>

type_synonym dict = "(string \<times> string) list"

definition dict_get :: "dict \<Rightarrow> string \<Rightarrow> string \<Rightarrow> string" where
  "dict_get d k dflt = (case map_of d k of None \<Rightarrow> dflt | Some v \<Rightarrow> v)"

text \<open>An exception is its class name and its message (\<open>str(e)\<close>).\<close>

datatype exn = Exn (exn_class: string) (exn_msg: string)

abbreviation ValueError :: "string \<Rightarrow> exn" where
  "ValueError msg \<equiv> Exn ''ValueError'' msg"

section \<open>Parsed documents and path lookups\<close>

text \<open>
  An \<open>ElementTree\<close> element: its tag (a namespaced tag is \<open>{uri}local\<close>), its text
  (\<open>None\<close> when the element has none) and its children in document order. Attributes and
  tails are not read by the program.
\<close>

datatype element = Element (elem_tag: string) (elem_text: "string option") (elem_children: "element list")

text \<open>\<open>Element.iter()\<close>: the element itself, then its descendants, in document order.\<close>

fun elem_iter :: "element \<Rightarrow> element list" where
  "elem_iter (Element t x cs) = Element t x cs # concat (map elem_iter cs)"

text \<open>
  The paths the program uses are built from two steps: \<open>.//tag\<close> (every proper
  descendant with that tag) and \<open>/tag\<close> or a bare \<open>tag\<close> (every child with that
  tag). A step maps the current list of elements to the next one.
\<close>

datatype step = Descendant string | Child string

fun select :: "step \<Rightarrow> element list \<Rightarrow> element list" where
  "select (Descendant t) es = concat (map (\<lambda>e. filter (\<lambda>d. elem_tag d = t) (tl (elem_iter e))) es)"
| "select (Child t) es = concat (map (\<lambda>e. filter (\<lambda>c. elem_tag c = t) (elem_children e)) es)"

definition findall :: "element \<Rightarrow> step list \<Rightarrow> element list" where
  "findall e path = fold select path [e]"

definition find :: "element \<Rightarrow> step list \<Rightarrow> element option" where
  "find e path = (case findall e path of [] \<Rightarrow> None | x # _ \<Rightarrow> Some x)"

definition findtext :: "element \<Rightarrow> step list \<Rightarrow> string \<Rightarrow> string" where
  "findtext e path dflt =
     (case find e path of
        None \<Rightarrow> dflt
      | Some x \<Rightarrow> (case elem_text x of None \<Rightarrow> [] | Some t \<Rightarrow> t))"


section \<open>Calendar instants\<close>

text \<open>
  A naive \<open>datetime\<close> is the tuple (year, month, day, hour, minute, second,
  microsecond); two naive instants compare field by field from the left, which is the
  lexicographic order of the tuples. An instant returned by a parser may carry a UTC
  offset (in minutes); \<open>replace(tzinfo=None)\<close> drops the offset and keeps the fields.
\<close>

type_synonym datetime = "nat \<times> nat \<times> nat \<times> nat \<times> nat \<times> nat \<times> nat"

type_synonym aware_datetime = "datetime \<times> int option"

definition replace_tzinfo_None :: "aware_datetime \<Rightarrow> datetime" where
  "replace_tzinfo_None dt = fst dt"

fun strftime_Ymd :: "datetime \<Rightarrow> string" where
  "strftime_Ymd (y, m, d, rest) = dec_digits y @ ''-'' @ zero_pad 2 m @ ''-'' @ zero_pad 2 d"

fun strftime_dmY :: "nat \<times> nat \<times> nat \<Rightarrow> string" where
  "strftime_dmY (y, m, d) = zero_pad 2 d @ ''/'' @ zero_pad 2 m @ ''/'' @ dec_digits y"

fun strftime_dmY_HM :: "datetime \<Rightarrow> string" where
  "strftime_dmY_HM (y, m, d, H, M, rest) =
     zero_pad 2 d @ ''/'' @ zero_pad 2 m @ ''/'' @ dec_digits y @ '' '' @ zero_pad 2 H @ '':'' @ zero_pad 2 M"

subsection \<open>Parsing an issue date\<close>

text \<open>
  \<open>datetime.strptime(s, "%Y-%m-%d")\<close> compiles the format to the regular expression
  \<open>(\d\d\d\d)-(1[0-2]|0[1-9]|[1-9])-(3[0-1]|[1-2]\d|0[1-9]|[1-9]| [1-9])\<close>, matches it at
  the start of the text trying the alternatives of a group from left to right, fails when
  text remains after the match, converts the three groups with \<open>int\<close> and builds a date,
  which fails when the year is 0 or the day is beyond the month. A failure is a
  \<open>ValueError\<close>; it is \<open>None\<close> here, since the caller only tests for it.
\<close>

datatype re_item = Lit char | Alt "(char \<Rightarrow> bool) list list"

fun match_seq :: "(char \<Rightarrow> bool) list \<Rightarrow> string \<Rightarrow> (string \<times> string) option" where
  "match_seq [] s = Some ([], s)"
| "match_seq (p # ps) [] = None"
| "match_seq (p # ps) (c # cs) =
     (if p c then (case match_seq ps cs of None \<Rightarrow> None | Some (m, r) \<Rightarrow> Some (c # m, r))
      else None)"

fun first_some :: "('a \<Rightarrow> 'b option) \<Rightarrow> 'a list \<Rightarrow> 'b option" where
  "first_some f [] = None"
| "first_some f (x # xs) = (case f x of None \<Rightarrow> first_some f xs | Some y \<Rightarrow> Some y)"

fun re_match :: "re_item list \<Rightarrow> string \<Rightarrow> (string list \<times> string) option" where
  "re_match [] s = Some ([], s)"
| "re_match (Lit c # items) s =
     (case s of [] \<Rightarrow> None | x # xs \<Rightarrow> if x = c then re_match items xs else None)"
| "re_match (Alt alts # items) s =
     first_some
       (\<lambda>alt. case match_seq alt s of
                None \<Rightarrow> None
              | Some (m, r) \<Rightarrow> (case re_match items r of None \<Rightarrow> None | Some (gs, r') \<Rightarrow> Some (m # gs, r')))
       alts"

definition one_of :: "string \<Rightarrow> char \<Rightarrow> bool" where
  "one_of cs c = (c \<in> set cs)"

definition re_Y :: "(char \<Rightarrow> bool) list list" where
  "re_Y = [[is_digit, is_digit, is_digit, is_digit]]"

definition re_m :: "(char \<Rightarrow> bool) list list" where
  "re_m = [[one_of ''1'', one_of ''012''], [one_of ''0'', one_of ''123456789''], [one_of ''123456789'']]"

definition re_d :: "(char \<Rightarrow> bool) list list" where
  "re_d = [[one_of ''3'', one_of ''01''], [one_of ''12'', is_digit], [one_of ''0'', one_of ''123456789''],
           [one_of ''123456789''], [one_of '' '', one_of ''123456789'']]"

text \<open>\<open>int(s)\<close> on a text of digits with optional surrounding whitespace.\<close>

definition py_int :: "string \<Rightarrow> nat" where
  "py_int s = fold (\<lambda>c n. 10 * n + digit_val c) (strip s) 0"

definition is_leap :: "nat \<Rightarrow> bool" where
  "is_leap y = (y mod 4 = 0 \<and> (y mod 100 \<noteq> 0 \<or> y mod 400 = 0))"

definition days_in_month :: "nat \<Rightarrow> nat \<Rightarrow> nat" where
  "days_in_month y m =
     (if m = 2 then (if is_leap y then 29 else 28)
      else if m \<in> {4, 6, 9, 11} then 30 else 31)"

definition valid_date :: "nat \<Rightarrow> nat \<Rightarrow> nat \<Rightarrow> bool" where
  "valid_date y m d = (1 \<le> y \<and> y \<le> 9999 \<and> 1 \<le> m \<and> m \<le> 12 \<and> 1 \<le> d \<and> d \<le> days_in_month y m)"

definition strptime_Ymd :: "string \<Rightarrow> (nat \<times> nat \<times> nat) option" where
  "strptime_Ymd s =
     (case re_match [Alt re_Y, Lit (CHR ''-''), Alt re_m, Lit (CHR ''-''), Alt re_d] s of
        Some ([Y, m, d], []) \<Rightarrow>
          (let year = py_int Y; month = py_int m; day = py_int d
           in if valid_date year month day then Some (year, month, day) else None)
      | _ \<Rightarrow> None)"





text \<open>The issue date of the Invoice Mapper: reformatted when it parses, the raw text otherwise.\<close>

definition issue_date_of :: "string \<Rightarrow> string" where
  "issue_date_of raw_date =
     (case strptime_Ymd raw_date of Some ymd \<Rightarrow> strftime_dmY ymd | None \<Rightarrow> raw_date)"


section \<open>Rendered documents and the libraries\<close>

text \<open>
  The Document Renderer builds a list of flowables and hands it to the layout library.
  A paragraph is its markup text and its style; a table is its grid of cells (a cell holds
  one or more flowables), tagged by the block it lays out, whose tag stands for the column
  widths and the table style the source attaches to that block.
\<close>

datatype style = styleN | styleH | table_cell_style | header_cell_style | right_align_style | style_subtitle

datatype table_kind = table_info | table_parties | table_items | totals_table | table_firma

datatype flowable =
    Paragraph string style
  | Spacer nat nat
  | Table "flowable list list list" table_kind

text \<open>
  An X.509 certificate as the program reads it: the attributes of subject and issuer as
  pairs of dotted object identifier and value, the name of the signature hash algorithm
  (\<open>None\<close> when reading it raises), and the validity window as naive instants.
\<close>

record certificate =
  subject :: "(string \<times> string) list"
  issuer :: "(string \<times> string) list"
  signature_hash_algorithm :: "string option"
  not_valid_before :: datetime
  not_valid_after :: datetime

text \<open>
  The library functions the program calls, whose code is not part of the program, are
  parameters: each returns its result or the exception it raises. \<open>format_float d s\<close> is
  \<open>"{:.df}".format(float(s))\<close>, \<open>None\<close> when \<open>float(s)\<close> raises. \<open>build\<close> stands for
  the construction of the paragraphs and tables and for \<open>doc.build\<close>, footer included.
\<close>

record lib =
  fromstring :: "bytes \<Rightarrow> exn + element"
  b64decode :: "string \<Rightarrow> exn + bytes"
  load_der_x509_certificate :: "bytes \<Rightarrow> exn + certificate"
  date_parser_parse :: "string \<Rightarrow> exn + aware_datetime"
  format_float :: "nat \<Rightarrow> string \<Rightarrow> string option"
  build :: "flowable list \<Rightarrow> exn + bytes"

section \<open>Certificate Interpreter\<close>

definition ds_X509Certificate :: string where
  "ds_X509Certificate = ''{http://www.w3.org/2000/09/xmldsig#}X509Certificate''"

definition xades_SigningTime :: string where
  "xades_SigningTime = ''{http://uri.etsi.org/01903/v1.3.2#}SigningTime''"

definition COMMON_NAME :: string where
  "COMMON_NAME = ''2.5.4.3''"

text \<open>\<open>name.get_attributes_for_oid(oid)[0].value\<close>, with the default of the handler
  around it when the list is empty.\<close>

definition get_attributes_for_oid :: "(string \<times> string) list \<Rightarrow> string \<Rightarrow> string list" where
  "get_attributes_for_oid attrs oid = map snd (filter (\<lambda>a. fst a = oid) attrs)"

definition first_attribute :: "(string \<times> string) list \<Rightarrow> string \<Rightarrow> string \<Rightarrow> string" where
  "first_attribute attrs oid dflt =
     (case get_attributes_for_oid attrs oid of [] \<Rightarrow> dflt | v # _ \<Rightarrow> v)"

definition not_yet_valid :: string where
  "not_yet_valid = ''Certificado a'' @ [u_acute] @ ''n no v'' @ [a_acute] @ ''lido (vigencia futura)''"

definition expired :: string where
  "expired = ''Certificado caducado''"

definition currently_valid :: string where
  "currently_valid = ''Certificado actualmente v'' @ [a_acute] @ ''lido''"

definition estado_actual :: "datetime \<Rightarrow> datetime \<Rightarrow> datetime \<Rightarrow> string" where
  "estado_actual now valido_desde valido_hasta =
     (if now < valido_desde then not_yet_valid
      else if now > valido_hasta then expired
      else currently_valid)"

definition valid_at_signing :: string where
  "valid_at_signing = ''Certificado v'' @ [a_acute] @ ''lido en la fecha de la firma''"

definition invalid_at_signing :: string where
  "invalid_at_signing = ''Certificado NO era v'' @ [a_acute] @ ''lido en la fecha de la firma''"

definition validez_en_firma :: "lib \<Rightarrow> string \<Rightarrow> datetime \<Rightarrow> datetime \<Rightarrow> string" where
  "validez_en_firma l signing_time_str valido_desde valido_hasta =
     (case date_parser_parse l signing_time_str of
        Inr signing_datetime \<Rightarrow>
          (let signing_naive = replace_tzinfo_None signing_datetime
           in if valido_desde \<le> signing_naive \<and> signing_naive \<le> valido_hasta
              then valid_at_signing else invalid_at_signing)
      | Inl e \<Rightarrow> ''No se pudo validar la fecha de firma: '' @ exn_msg e)"

text \<open>The body of the outer \<open>try\<close>: the two library calls outside an inner handler are
  the places where it can raise.\<close>

definition signature_info_body :: "lib \<Rightarrow> datetime \<Rightarrow> element \<Rightarrow> exn + dict" where
  "signature_info_body l now xml_root =
     (let cert_base64 = findtext xml_root [Descendant ds_X509Certificate] []
      in if cert_base64 = [] then Inr [(''estado'', ''No se encontr'' @ [o_acute] @ '' certificado'')]
         else
           (case b64decode l cert_base64 of
              Inl e \<Rightarrow> Inl e
            | Inr cert_der \<Rightarrow>
                (case load_der_x509_certificate l cert_der of
                   Inl e \<Rightarrow> Inl e
                 | Inr cert \<Rightarrow>
                     (let cn = first_attribute (subject cert) COMMON_NAME ''N/A'';
                          nif = first_attribute (subject cert) ''2.5.4.5'' ''N/A'';
                          cert_issuer = first_attribute (issuer cert) COMMON_NAME ''No disponible'';
                          algorithm = (case signature_hash_algorithm cert of
                                         None \<Rightarrow> ''N/A'' | Some name \<Rightarrow> upper name);
                          signing_time_str = findtext xml_root [Descendant xades_SigningTime] ''No especificada'';
                          valido_desde = not_valid_before cert;
                          valido_hasta = not_valid_after cert
                      in Inr [(''estado'', ''Firma encontrada''),
                              (''firmante'', cn),
                              (''nif'', nif),
                              (''algoritmo'', algorithm),
                              (''fecha_firma'', signing_time_str),
                              (''valido_desde'', strftime_Ymd valido_desde),
                              (''valido_hasta'', strftime_Ymd valido_hasta),
                              (''estado_certificado'', estado_actual now valido_desde valido_hasta),
                              (''validez_en_firma'', validez_en_firma l signing_time_str valido_desde valido_hasta),
                              (''autoridad_certificadora'', cert_issuer)]))))"

definition extract_signature_info_from_xml :: "lib \<Rightarrow> datetime \<Rightarrow> element \<Rightarrow> dict" where
  "extract_signature_info_from_xml l now xml_root =
     (case signature_info_body l now xml_root of
        Inr info \<Rightarrow> info
      | Inl e \<Rightarrow> [(''estado'', ''Error al extraer firma: '' @ exn_msg e)])"

text \<open>The Document Renderer's test for a signature that was found.\<close>

definition firma_found :: "dict \<Rightarrow> bool" where
  "firma_found firma = (firma \<noteq> [] \<and> prefix ''Firma'' (dict_get firma ''estado'' []))"


section \<open>Invoice Mapper\<close>

definition k_Direccion :: string where
  "k_Direccion = ''Direcci'' @ [o_acute] @ ''n''"

definition k_Descripcion :: string where
  "k_Descripcion = ''Descripci'' @ [o_acute] @ ''n''"

definition emitter :: "element \<Rightarrow> dict" where
  "emitter xml_root =
     (case find xml_root [Descendant ''SellerParty''] of
        Some seller_party \<Rightarrow>
          (let tax_id = findtext seller_party [Descendant ''TaxIdentification'', Child ''TaxIdentificationNumber''] ''N/A'';
               corporate_name = findtext seller_party [Descendant ''LegalEntity'', Child ''CorporateName''] ''N/A'';
               address = findtext seller_party [Descendant ''LegalEntity'', Child ''AddressInSpain'', Child ''Address''] ''N/A'';
               postcode = findtext seller_party [Descendant ''LegalEntity'', Child ''AddressInSpain'', Child ''PostCode''] ''N/A'';
               town = findtext seller_party [Descendant ''LegalEntity'', Child ''AddressInSpain'', Child ''Town''] ''N/A'';
               province = findtext seller_party [Descendant ''LegalEntity'', Child ''AddressInSpain'', Child ''Province''] ''N/A'';
               country = findtext seller_party [Descendant ''LegalEntity'', Child ''AddressInSpain'', Child ''CountryCode''] ''N/A'';
               emitter_address = address @ '', '' @ postcode @ '' '' @ town @ '', '' @ province @ '', '' @ country
           in [(''Nombre'', corporate_name), (''NIF'', tax_id), (k_Direccion, emitter_address),
               (''Poblacion'', town), (''Cod.Postal'', postcode), (''Provincia'', province)])
      | None \<Rightarrow>
          [(''Nombre'', ''N/A''), (''NIF'', ''N/A''), (k_Direccion, ''N/A''),
           (''Poblacion'', ''N/A''), (''Cod.Postal'', ''N/A''), (''Provincia'', ''N/A'')])"

definition invoice_additional_info :: "element \<Rightarrow> string" where
  "invoice_additional_info xml_root =
     strip (findtext xml_root [Descendant ''AdditionalData'', Child ''InvoiceAdditionalInformation''] [])"



text \<open>The comprehension over the legal references: an entry is kept when its text is
  neither \<open>None\<close> nor empty and its stripped text is not empty; the stripped text is kept.\<close>

definition legal_references_of :: "element list \<Rightarrow> string list" where
  "legal_references_of refs =
     List.map_filter
       (\<lambda>ref. case elem_text ref of
                None \<Rightarrow> None
              | Some t \<Rightarrow> if t \<noteq> [] \<and> strip t \<noteq> [] then Some (strip t) else None)
       refs"

definition legal_references :: "element \<Rightarrow> string list" where
  "legal_references xml_root =
     legal_references_of (findall xml_root [Descendant ''LegalLiterals'', Child ''LegalReference''])"

definition destinos :: "element \<Rightarrow> string list" where
  "destinos xml_root =
     (case find xml_root [Descendant ''BuyerParty''] of
        Some buyer_party \<Rightarrow>
          map (\<lambda>admin. findtext admin [Child ''CentreCode''] ''N/A'' @ '' - '' @ findtext admin [Child ''Name''] ''N/A'')
            (findall buyer_party [Descendant ''AdministrativeCentres'', Child ''AdministrativeCentre''])
      | None \<Rightarrow> [])"

definition receptor :: "element \<Rightarrow> dict" where
  "receptor xml_root =
     (case find xml_root [Descendant ''BuyerParty''] of
        Some buyer_party \<Rightarrow>
          (let buyer_tax_id = findtext buyer_party [Descendant ''TaxIdentification'', Child ''TaxIdentificationNumber''] ''N/A'';
               buyer_name = findtext buyer_party [Descendant ''LegalEntity'', Child ''CorporateName''] ''N/A'';
               b_address = findtext buyer_party [Descendant ''LegalEntity'', Child ''AddressInSpain'', Child ''Address''] ''N/A'';
               b_postcode = findtext buyer_party [Descendant ''LegalEntity'', Child ''AddressInSpain'', Child ''PostCode''] [];
               b_town = findtext buyer_party [Descendant ''LegalEntity'', Child ''AddressInSpain'', Child ''Town''] [];
               b_province = findtext buyer_party [Descendant ''LegalEntity'', Child ''AddressInSpain'', Child ''Province''] [];
               b_country = findtext buyer_party [Descendant ''LegalEntity'', Child ''AddressInSpain'', Child ''CountryCode''] [];
               buyer_address = b_address @ '', '' @ b_postcode @ '' '' @ b_town @ '', '' @ b_province @ '', '' @ b_country
           in [(''Nombre'', buyer_name), (''NIF'', buyer_tax_id), (k_Direccion, buyer_address)])
      | None \<Rightarrow> [(''Nombre'', ''N/A''), (''NIF'', ''N/A''), (k_Direccion, ''N/A'')])
     @ [(''OfiCont'', if length (destinos xml_root) > 0 then destinos xml_root ! 0 else ''N/A''),
        (''OrgGest'', if length (destinos xml_root) > 1 then destinos xml_root ! 1 else ''N/A''),
        (''UndTram'', if length (destinos xml_root) > 2 then destinos xml_root ! 2 else ''N/A'')]"

definition invoice_class_map :: dict where
  "invoice_class_map =
     [(''OO'', ''Original''),
      (''OR'', ''Original Rectificativa''),
      (''OC'', ''Original Recapitulativa''),
      (''CO'', ''Duplicado Original''),
      (''CR'', ''Duplicado Rectificativa''),
      (''CC'', ''Duplicado Recapitulativa'')]"

record invoice_header =
  invoice_number :: string
  issue_date :: string
  invoice_type :: string
  invoice_currency :: string
  invoice_class_desc :: string

definition header :: "element \<Rightarrow> invoice_header" where
  "header xml_root =
     (case find xml_root [Descendant ''Invoices'', Child ''Invoice''] of
        Some invoice_element \<Rightarrow>
          (let number = findtext invoice_element [Descendant ''InvoiceHeader'', Child ''InvoiceNumber''] ''N/A'';
               invoice_series = findtext invoice_element [Descendant ''InvoiceHeader'', Child ''InvoiceSeriesCode''] [];
               type = findtext invoice_element [Descendant ''InvoiceHeader'', Child ''InvoiceDocumentType''] ''N/A'';
               currency = findtext invoice_element [Descendant ''InvoiceIssueData'', Child ''InvoiceCurrencyCode''] ''N/A'';
               raw_date = findtext invoice_element [Descendant ''InvoiceIssueData'', Child ''IssueDate''] ''N/A'';
               invoice_class = findtext invoice_element [Descendant ''InvoiceHeader'', Child ''InvoiceClass''] ''N/A''
           in \<lparr>invoice_number = invoice_series @ number,
               issue_date = issue_date_of raw_date,
               invoice_type = type,
               invoice_currency = currency,
               invoice_class_desc = dict_get invoice_class_map invoice_class ''N/A''\<rparr>)
      | None \<Rightarrow>
          \<lparr>invoice_number = ''N/A'', issue_date = ''N/A'', invoice_type = ''N/A'',
           invoice_currency = ''N/A'', invoice_class_desc = ''N/A''\<rparr>)"

definition totals :: "element \<Rightarrow> dict" where
  "totals xml_root =
     (case find xml_root [Descendant ''Invoices'', Child ''Invoice''] of
        Some invoice_element \<Rightarrow>
          (case find invoice_element [Descendant ''InvoiceTotals''] of
             Some invoice_totals \<Rightarrow>
               [(''TotalGrossAmount'', findtext invoice_totals [Child ''TotalGrossAmount''] ''0.00''),
                (''TotalGeneralDiscounts'', findtext invoice_totals [Child ''TotalGeneralDiscounts''] ''0.00''),
                (''TotalGrossAmountBeforeTaxes'', findtext invoice_totals [Child ''TotalGrossAmountBeforeTaxes''] ''N/A''),
                (''TotalTaxOutputs'', findtext invoice_totals [Child ''TotalTaxOutputs''] ''N/A''),
                (''TotalTaxesWithheld'', findtext invoice_totals [Child ''TotalTaxesWithheld''] ''N/A''),
                (''InvoiceTotal'', findtext invoice_totals [Child ''InvoiceTotal''] ''N/A''),
                (''TotalOutstandingAmount'', findtext invoice_totals [Child ''TotalOutstandingAmount''] ''N/A''),
                (''TotalExecutableAmount'', findtext invoice_totals [Child ''TotalExecutableAmount''] ''N/A'')]
           | None \<Rightarrow> [])
      | None \<Rightarrow> [])"

definition items :: "element \<Rightarrow> dict list" where
  "items xml_root =
     (case find xml_root [Descendant ''Invoices'', Child ''Invoice''] of
        Some invoice_element \<Rightarrow>
          map (\<lambda>line.
                 [(k_Descripcion, findtext line [Child ''ItemDescription''] ''N/A''),
                  (''Cantidad'', findtext line [Child ''Quantity''] ''N/A''),
                  (''Precio Unitario'', findtext line [Child ''UnitPriceWithoutTax''] ''N/A''),
                  (''Importe'', findtext line [Child ''TotalCost''] ''N/A'')])
            (findall invoice_element [Descendant ''Items'', Child ''InvoiceLine''])
      | None \<Rightarrow> [])"

text \<open>The invoice model, one field per key of the dictionary the mapper returns.\<close>

record invoice =
  Numero_de_Factura :: string
  Fecha :: string
  Tipo_Dcomento :: string
  Moneda :: string
  Clase_Factura :: string
  Total_Factura :: string
  Totales :: dict
  Emisor :: dict
  Receptor :: dict
  Conceptos :: "dict list"
  Firma :: dict
  InfoAdicional :: string
  ReferenciasLegales :: "string list"

definition extract_invoice_data_from_xml :: "lib \<Rightarrow> datetime \<Rightarrow> element \<Rightarrow> invoice" where
  "extract_invoice_data_from_xml l now xml_root =
     \<lparr>Numero_de_Factura = invoice_number (header xml_root),
      Fecha = issue_date (header xml_root),
      Tipo_Dcomento = invoice_type (header xml_root),
      Moneda = invoice_currency (header xml_root),
      Clase_Factura = invoice_class_desc (header xml_root),
      Total_Factura = dict_get (totals xml_root) ''InvoiceTotal'' ''N/A'',
      Totales = totals xml_root,
      Emisor = emitter xml_root,
      Receptor = receptor xml_root,
      Conceptos = items xml_root,
      Firma = extract_signature_info_from_xml l now xml_root,
      InfoAdicional = invoice_additional_info xml_root,
      ReferenciasLegales = legal_references xml_root\<rparr>"


section \<open>Document Renderer\<close>

record parametros =
  num_registro :: string
  tipo_registro :: string
  num_rcf :: string
  fecha_hora_registro :: string

definition header_band :: "invoice \<Rightarrow> parametros \<Rightarrow> flowable list" where
  "header_band invoice p =
     (let titulo = Paragraph ''Factura'' styleH;
          info_factura = Paragraph
            (''<b>Fecha de Emisi'' @ [o_acute] @ ''n:</b> '' @ Fecha invoice @ '' ''
             @ ''<b>N'' @ [u_acute] @ ''mero:</b> '' @ Numero_de_Factura invoice @ ''<br/>''
             @ ''<b>Clase de factura:</b> '' @ Clase_Factura invoice @ '' ''
             @ ''<b>Moneda:</b> '' @ Moneda invoice) styleN;
          info_extra = Paragraph
            (''<b>Num.Registro:</b> '' @ num_registro p @ ''<br/>''
             @ ''<b>Punto de Entrada:</b> '' @ tipo_registro p @ ''<br/>''
             @ ''<b>Num.Factura RCF:</b> '' @ num_rcf p @ ''<br/>''
             @ ''<b>Fecha y hora registro:</b> '' @ fecha_hora_registro p) styleN
      in [Table [[[titulo, info_factura], [info_extra]]] table_info, Spacer 1 12])"

definition parties_block :: "invoice \<Rightarrow> flowable list" where
  "parties_block invoice =
     (let emisor = Emisor invoice;
          receptor = Receptor invoice;
          receptor_info =
            ''<b>Nombre:</b> '' @ dict_get receptor ''Nombre'' ''N/A'' @ ''<br/>''
            @ ''<b>NIF:</b> '' @ dict_get receptor ''NIF'' ''N/A'' @ ''<br/>''
            @ ''<b>Direcci'' @ [o_acute] @ ''n:</b> '' @ dict_get receptor k_Direccion ''N/A'' @ ''<br/>''
            @ ''<b>Ofi.Cont.:</b> '' @ dict_get receptor ''OfiCont'' ''N/A'' @ ''<br/>''
            @ ''<b>Org.Gest:</b> '' @ dict_get receptor ''OrgGest'' ''N/A'' @ ''<br/>''
            @ ''<b>Und.Tram:</b> '' @ dict_get receptor ''UndTram'' ''N/A'';
          emisor_info =
            ''<b>Nombre:</b> '' @ dict_get emisor ''Nombre'' ''N/A'' @ ''<br/>''
            @ ''<b>NIF:</b> '' @ dict_get emisor ''NIF'' ''N/A'' @ ''<br/>''
            @ ''<b>Direcci'' @ [o_acute] @ ''n:</b> '' @ dict_get emisor k_Direccion ''N/A'' @ ''<br/>''
            @ ''<b>Poblacion:</b> '' @ dict_get emisor ''Poblacion'' ''N/A'' @ ''<br/>''
            @ ''<b>Cod.Postal:</b> '' @ dict_get emisor ''Cod.Postal'' ''N/A'' @ ''<br/>''
            @ ''<b>Provincia:</b> '' @ dict_get emisor ''Provincia'' ''N/A''
      in [Table [[[Paragraph ''<b>EMISOR</b>'' styleN], [Paragraph ''<b>RECEPTOR</b>'' styleN]],
                 [[Paragraph emisor_info styleN], [Paragraph receptor_info styleN]]] table_parties,
          Spacer 1 12])"

text \<open>\<open>_fmt(item.get(key, 0), fmt)\<close>: a missing key formats the number 0; a text that is
  not a number is returned as it is.\<close>

definition fmt_item :: "lib \<Rightarrow> dict \<Rightarrow> string \<Rightarrow> nat \<Rightarrow> string" where
  "fmt_item l item key decimals =
     (case map_of item key of
        None \<Rightarrow> ''0.'' @ replicate decimals (CHR ''0'')
      | Some val \<Rightarrow> (case format_float l decimals val of Some s \<Rightarrow> s | None \<Rightarrow> val))"

definition items_block :: "lib \<Rightarrow> invoice \<Rightarrow> flowable list" where
  "items_block l invoice =
     (if Conceptos invoice \<noteq> [] then
        [Table
           ([[Paragraph k_Descripcion header_cell_style], [Paragraph ''Cantidad'' header_cell_style],
             [Paragraph ''Precio Unitario'' header_cell_style], [Paragraph ''Importe'' header_cell_style]]
            # map (\<lambda>item.
                     [[Paragraph (dict_get item k_Descripcion ''N/A'') table_cell_style],
                      [Paragraph (fmt_item l item ''Cantidad'' 2) right_align_style],
                      [Paragraph (fmt_item l item ''Precio Unitario'' 4) right_align_style],
                      [Paragraph (fmt_item l item ''Importe'' 2) right_align_style]])
                (Conceptos invoice))
           table_items,
         Spacer 1 12]
      else [Paragraph ''No hay conceptos en la factura.'' styleN, Spacer 1 12])"

definition totals_block :: "invoice \<Rightarrow> flowable list" where
  "totals_block invoice =
     (let totals = Totales invoice
      in if totals \<noteq> [] then
           [Table
              [[[Paragraph ''<b>Importe bruto total:</b>'' styleN],
                [Paragraph (dict_get totals ''TotalGrossAmount'' ''N/A'') right_align_style]],
               [[Paragraph ''<b>Descuentos generales:</b>'' styleN],
                [Paragraph (dict_get totals ''TotalGeneralDiscounts'' ''N/A'') right_align_style]],
               [[Paragraph ''<b>Base imponible antes de impuestos:</b>'' styleN],
                [Paragraph (dict_get totals ''TotalGrossAmountBeforeTaxes'' ''N/A'') right_align_style]],
               [[Paragraph ''<b>Importe de impuestos:</b>'' styleN],
                [Paragraph (dict_get totals ''TotalTaxOutputs'' ''N/A'') right_align_style]],
               [[Paragraph ''<b>Retenciones:</b>'' styleN],
                [Paragraph (dict_get totals ''TotalTaxesWithheld'' ''N/A'') right_align_style]],
               [[Paragraph ''<b>Importe total factura:</b>'' styleN],
                [Paragraph (dict_get totals ''InvoiceTotal'' ''N/A'') right_align_style]]]
              totals_table,
            Spacer 1 12]
         else [])"

definition additional_info_block :: "invoice \<Rightarrow> flowable list" where
  "additional_info_block invoice =
     (if InfoAdicional invoice \<noteq> [] then
        [Paragraph (''<b>Informaci'' @ [o_acute] @ ''n Adicional:</b>'') styleN,
         Paragraph (InfoAdicional invoice) styleN,
         Spacer 1 12]
      else [])"

definition legal_references_block :: "invoice \<Rightarrow> flowable list" where
  "legal_references_block invoice =
     (if ReferenciasLegales invoice \<noteq> [] then
        Paragraph ''<b>Literales Legales:</b>'' styleN
        # map (\<lambda>ref. Paragraph ref styleN) (ReferenciasLegales invoice) @ [Spacer 1 12]
      else [])"

definition signature_block :: "invoice \<Rightarrow> flowable list" where
  "signature_block invoice =
     (let firma = Firma invoice
      in if firma_found firma then
           [Spacer 1 12,
            Paragraph (''Firma electr'' @ [o_acute] @ ''nica'') style_subtitle,
            Spacer 1 6,
            Table
              [[[Paragraph ''<b>Firmante:</b>'' styleN], [Paragraph (dict_get firma ''firmante'' ''N/A'') styleN],
                [Paragraph ''<b>NIF:</b>'' styleN], [Paragraph (dict_get firma ''nif'' ''N/A'') styleN],
                [Paragraph ''<b>Algoritmo:</b>'' styleN], [Paragraph (dict_get firma ''algoritmo'' ''N/A'') styleN]],
               [[Paragraph ''<b>Fecha Firma:</b>'' styleN], [Paragraph (dict_get firma ''fecha_firma'' ''N/A'') styleN],
                [Paragraph ''<b>Desde:</b>'' styleN], [Paragraph (dict_get firma ''valido_desde'' ''N/A'') styleN],
                [Paragraph ''<b>Hasta:</b>'' styleN], [Paragraph (dict_get firma ''valido_hasta'' ''N/A'') styleN]],
               [[Paragraph ''<b>Estado actual:</b>'' styleN], [Paragraph (dict_get firma ''estado_certificado'' ''N/A'') styleN],
                [Paragraph ''<b>Validez en firma:</b>'' styleN], [Paragraph (dict_get firma ''validez_en_firma'' ''N/A'') styleN],
                [Paragraph (''<b>Autoridad Certificaci'' @ [o_acute] @ ''n:</b>'') styleN],
                [Paragraph (dict_get firma ''autoridad_certificadora'' ''N/A'') styleN]]]
              table_firma,
            Spacer 1 12]
         else [])"

definition elements :: "lib \<Rightarrow> invoice \<Rightarrow> parametros \<Rightarrow> flowable list" where
  "elements l invoice p =
     header_band invoice p @ parties_block invoice @ items_block l invoice @ totals_block invoice
     @ additional_info_block invoice @ legal_references_block invoice @ signature_block invoice"

definition generate_pdf_from_invoice :: "lib \<Rightarrow> invoice \<Rightarrow> parametros \<Rightarrow> exn + bytes" where
  "generate_pdf_from_invoice l invoice p = build l (elements l invoice p)"

section \<open>Pipeline entry point\<close>

text \<open>The argument \<open>xsig_bytes\<close> is what \<open>xsig_file.read()\<close> returned; \<open>now\<close> is the
  reading of the UTC clock; the \<open>timezone\<close> argument is not used by the source.\<close>

definition render_pdf_from_xsig ::
  "lib \<Rightarrow> datetime \<Rightarrow> bytes \<Rightarrow> string \<Rightarrow> string \<Rightarrow> string \<Rightarrow> aware_datetime \<Rightarrow> exn + bytes" where
  "render_pdf_from_xsig l now xsig_bytes nr tr rcf fhr =
     (if xsig_bytes = [] then Inl (ValueError (''Archivo vac'' @ [i_acute] @ ''o o no legible.''))
      else
        (let xml_bytes = extract_xml_from_xsig_bytes xsig_bytes
         in case fromstring l xml_bytes of
              Inl e \<Rightarrow>
                Inl (ValueError (''El archivo no parece un XSIG/XML v'' @ [a_acute] @ ''lido: '' @ exn_msg e))
            | Inr root \<Rightarrow>
                (let invoice_data = extract_invoice_data_from_xml l now root;
                     params = \<lparr>num_registro = nr, tipo_registro = tr, num_rcf = rcf,
                               fecha_hora_registro = strftime_dmY_HM (fst fhr)\<rparr>
                 in generate_pdf_from_invoice l invoice_data params)))"

section \<open>An interpretation of the libraries for worked examples\<close>

text \<open>
  The examples below evaluate the program on concrete inputs, which needs the library
  parameters fixed: a parser that knows one document, a decoder that knows two texts, a
  certificate loader that knows one certificate, a date parser that knows one timestamp, a number formatter
  that rejects every text, and a layout engine that accepts every list of flowables.
\<close>

definition example_certificate :: certificate where
  "example_certificate =
     \<lparr>subject = [(''2.5.4.3'', ''ACME SL''), (''2.5.4.5'', ''B12345678'')],
      issuer = [(''2.5.4.3'', ''AC Ejemplo'')],
      signature_hash_algorithm = Some ''sha256'',
      not_valid_before = (2024, 1, 1, 0, 0, 0, 0),
      not_valid_after = (2026, 1, 1, 0, 0, 0, 0)\<rparr>"

definition example_totals_element :: element where
  "example_totals_element =
     Element ''InvoiceTotals'' None
       [Element ''TotalGrossAmount'' (Some ''100.00'') [],
        Element ''InvoiceTotal'' (Some ''121.00'') [],
        Element ''TotalOutstandingAmount'' (Some ''121.00'') []]"

definition example_invoice_element :: element where
  "example_invoice_element = Element ''Invoice'' None [example_totals_element]"

definition example_document :: element where
  "example_document =
     Element ''Facturae'' None
       [Element ''Invoices'' None [example_invoice_element],
        Element ''{http://www.w3.org/2000/09/xmldsig#}X509Certificate'' (Some ''TUlJ'') [],
        Element ''{http://uri.etsi.org/01903/v1.3.2#}SigningTime'' (Some ''2025-03-01T10:00:00+01:00'') []]"

definition unsigned_document :: element where
  "unsigned_document = Element ''Facturae'' None []"

definition document_with_certificate :: "string \<Rightarrow> element" where
  "document_with_certificate c =
     Element ''Facturae'' None [Element ''{http://www.w3.org/2000/09/xmldsig#}X509Certificate'' (Some c) []]"



definition example_lib :: lib where
  "example_lib =
     \<lparr>fromstring = (\<lambda>bs. if bs = ''<Facturae/>'' then Inr (Element ''Facturae'' None [])
                          else Inl (Exn ''ParseError'' ''syntax error: line 1, column 0'')),
      b64decode = (\<lambda>s. if s = ''TUlJ'' then Inr ''0''
                          else if s = ''AAAA'' then Inr ''junk''
                          else Inl (Exn ''Error'' ''Incorrect padding'')),
      load_der_x509_certificate = (\<lambda>der. if der = ''0'' then Inr example_certificate
                          else Inl (ValueError ''error parsing asn1 value'')),
      date_parser_parse = (\<lambda>s. if s = ''2025-03-01T10:00:00+01:00''
                          then Inr ((2025, 3, 1, 10, 0, 0, 0), Some 60)
                          else Inl (Exn ''ParserError'' (''Unknown string format: '' @ s))),
      format_float = (\<lambda>decimals s. None),
      build = (\<lambda>flowables. Inr ''%PDF'')\<rparr>"

definition example_invoice :: invoice where
  "example_invoice =
     \<lparr>Numero_de_Factura = ''A7'', Fecha = ''15/03/2025'', Tipo_Dcomento = ''FC'', Moneda = ''EUR'',
      Clase_Factura = ''Original'', Total_Factura = ''121.00'',
      Totales = [(''TotalGrossAmount'', ''100.00''), (''InvoiceTotal'', ''121.00''),
                 (''TotalOutstandingAmount'', ''121.00''), (''TotalExecutableAmount'', ''121.00'')],
      Emisor = [], Receptor = [], Conceptos = [], Firma = [], InfoAdicional = [],
      ReferenciasLegales = [''Ley 37/1992'']\<rparr>"

definition example_parametros :: parametros where
  "example_parametros =
     \<lparr>num_registro = ''2025/000123'', tipo_registro = ''FACe'', num_rcf = ''RCF-2025-000987'',
      fecha_hora_registro = ''15/03/2025 10:30''\<rparr>"

text \<open>The tables of a block in a list of flowables, and the texts of the paragraphs in a
  table's second column, for reading rendered blocks in the statements below.\<close>

fun is_table_of :: "table_kind \<Rightarrow> flowable \<Rightarrow> bool" where
  "is_table_of k (Table rows k') = (k = k')"
| "is_table_of k (Paragraph t s) = False"
| "is_table_of k (Spacer w h) = False"

fun paragraph_texts :: "flowable list \<Rightarrow> string list" where
  "paragraph_texts [] = []"
| "paragraph_texts (Paragraph t s # fs) = t # paragraph_texts fs"
| "paragraph_texts (f # fs) = paragraph_texts fs"

fun table_rows :: "flowable \<Rightarrow> string list list" where
  "table_rows (Table rows k) = map (\<lambda>row. paragraph_texts (concat row)) rows"
| "table_rows (Paragraph t s) = []"
| "table_rows (Spacer w h) = []"

text \<open>
  A second interpretation, for a document whose seller name holds markup. Its parser knows
  that document; its layout engine accepts a list of flowables when in every paragraph
  text the opening and the closing bold tags are equal in number, and raises otherwise, as
  a layout engine that parses paragraph markup does on an unclosed tag.
\<close>

definition markup_bytes :: bytes where
  "markup_bytes =
     ''<Facturae><SellerParty><LegalEntity><CorporateName>&lt;b&gt;ACME</CorporateName>''
     @ ''</LegalEntity></SellerParty></Facturae>''"

definition markup_document :: element where
  "markup_document =
     Element ''Facturae'' None
       [Element ''SellerParty'' None
          [Element ''LegalEntity'' None [Element ''CorporateName'' (Some ''<b>ACME'') []]]]"

fun count_sub :: "string \<Rightarrow> string \<Rightarrow> nat" where
  "count_sub sub [] = 0"
| "count_sub sub (x # xs) = (if prefix sub (x # xs) then 1 else 0) + count_sub sub xs"

definition balanced :: "string \<Rightarrow> bool" where
  "balanced t = (count_sub ''<b>'' t = count_sub ''</b>'' t)"

definition all_texts :: "flowable list \<Rightarrow> string list" where
  "all_texts fs = paragraph_texts fs @ concat (concat (map table_rows fs))"

definition markup_layout :: lib where
  "markup_layout =
     example_lib
       \<lparr>fromstring := (\<lambda>bs. if bs = markup_bytes then Inr markup_document else fromstring example_lib bs),
        build := (\<lambda>flowables. if list_all balanced (all_texts flowables) then Inr ''%PDF''
                    else Inl (ValueError ''Parse error: saw </para> instead of expected </b>''))\<rparr>"

section \<open>Properties of the Container Extractor\<close>

lemma occurs_at_Cons_Suc [simp]: "occurs_at sub (x # xs) (Suc k) = occurs_at sub xs k"
  by (simp add: occurs_at_def)

lemma occurs_at_0: "occurs_at sub xs 0 = prefix sub xs"
  by (simp add: occurs_at_def)

lemma bytes_find_ge: "- 1 \<le> bytes_find xs sub"
  by (induction xs) (auto simp: Let_def)

lemma all_less_Suc_shift: "(\<forall>k<Suc n. P k) \<longleftrightarrow> (P 0 \<and> (\<forall>k<n. P (Suc k)))"
  by (metis less_Suc_eq_0_disj)

lemma first_occurrence_iff:
  "first_occurrence sub xs i \<longleftrightarrow> (occurs_at sub xs i \<and> (\<forall>k<i. \<not> occurs_at sub xs k))"
  by (auto simp: first_occurrence_def list_all_iff)

lemma last_occurrence_iff:
  "last_occurrence sub xs j \<longleftrightarrow>
     (occurs_at sub xs j \<and> (\<forall>k. j < k \<and> k \<le> length xs \<longrightarrow> \<not> occurs_at sub xs k))"
  unfolding last_occurrence_def list_all_iff set_upt atLeastLessThan_iff
  by (auto simp: Suc_le_eq less_Suc_eq_le)

lemma bytes_find_found:
  "bytes_find xs sub \<noteq> - 1 \<Longrightarrow> first_occurrence sub xs (nat (bytes_find xs sub))"
proof (induction xs)
  case Nil
  then show ?case by (auto simp: first_occurrence_iff occurs_at_def split: if_splits)
next
  case (Cons x xs)
  show ?case
  proof (cases "prefix sub (x # xs)")
    case True
    then show ?thesis by (simp add: first_occurrence_iff occurs_at_0)
  next
    case False
    with Cons.prems have r: "bytes_find xs sub \<noteq> - 1"
      by (auto simp: Let_def split: if_splits)
    with bytes_find_ge[of xs sub] have ge: "0 \<le> bytes_find xs sub" by linarith
    then have eq: "nat (bytes_find (x # xs) sub) = Suc (nat (bytes_find xs sub))"
      using False r by (simp add: Let_def nat_add_distrib)
    from Cons.IH[OF r] False show ?thesis
      unfolding eq first_occurrence_iff
      by (simp add: all_less_Suc_shift occurs_at_0)
  qed
qed

lemma bytes_find_first:
  "first_occurrence sub xs i \<Longrightarrow> bytes_find xs sub = int i"
proof (induction xs arbitrary: i)
  case Nil
  then show ?case by (auto simp: first_occurrence_iff occurs_at_def)
next
  case (Cons x xs)
  show ?case
  proof (cases i)
    case 0
    with Cons.prems show ?thesis by (simp add: first_occurrence_iff occurs_at_0)
  next
    case (Suc k)
    with Cons.prems have np: "\<not> prefix sub (x # xs)" and fo: "first_occurrence sub xs k"
      by (auto simp: first_occurrence_iff all_less_Suc_shift occurs_at_0)
    from Cons.IH[OF fo] np Suc show ?thesis by (simp add: Let_def)
  qed
qed

lemma bytes_rfind_ge: "- 1 \<le> bytes_rfind xs sub"
  by (induction xs) (auto simp: Let_def)

lemma no_occ_Cons:
  "(\<forall>k\<le>length (x # xs). \<not> occurs_at sub (x # xs) k) \<longleftrightarrow>
     (\<not> prefix sub (x # xs) \<and> (\<forall>k\<le>length xs. \<not> occurs_at sub xs k))"
  (is "?L \<longleftrightarrow> ?R")
proof
  assume L: ?L
  have "\<not> prefix sub (x # xs)" using L[rule_format, of 0] by (simp add: occurs_at_0)
  moreover have "\<forall>k\<le>length xs. \<not> occurs_at sub xs k"
  proof (intro allI impI)
    fix k assume "k \<le> length xs"
    then show "\<not> occurs_at sub xs k" using L[rule_format, of "Suc k"] by simp
  qed
  ultimately show ?R by simp
next
  assume R: ?R
  show ?L
  proof (intro allI impI)
    fix k assume "k \<le> length (x # xs)"
    then show "\<not> occurs_at sub (x # xs) k" using R by (cases k) (auto simp: occurs_at_0)
  qed
qed

lemma bytes_rfind_none:
  "bytes_rfind xs sub = - 1 \<longleftrightarrow> (\<forall>k\<le>length xs. \<not> occurs_at sub xs k)"
proof (induction xs)
  case Nil
  then show ?case by (auto simp: occurs_at_def)
next
  case (Cons x xs)
  show ?case unfolding no_occ_Cons using Cons.IH[symmetric] bytes_rfind_ge[of xs sub]
    by (auto simp: Let_def)
qed

lemma bytes_find_none:
  "bytes_find xs sub = - 1 \<longleftrightarrow> (\<forall>k\<le>length xs. \<not> occurs_at sub xs k)"
proof (induction xs)
  case Nil
  then show ?case by (auto simp: occurs_at_def)
next
  case (Cons x xs)
  show ?case unfolding no_occ_Cons using Cons.IH[symmetric] bytes_find_ge[of xs sub]
    by (auto simp: Let_def)
qed

lemma bytes_rfind_found:
  "bytes_rfind xs sub \<noteq> - 1 \<Longrightarrow> last_occurrence sub xs (nat (bytes_rfind xs sub))"
proof (induction xs)
  case Nil
  then show ?case by (auto simp: last_occurrence_iff occurs_at_def split: if_splits)
next
  case (Cons x xs)
  show ?case
  proof (cases "bytes_rfind xs sub = - 1")
    case True
    with Cons.prems have p: "prefix sub (x # xs)" and z: "bytes_rfind (x # xs) sub = 0"
      by (auto simp: Let_def split: if_splits)
    from True have none: "\<forall>k\<le>length xs. \<not> occurs_at sub xs k"
      by (simp add: bytes_rfind_none)
    have "\<forall>k. 0 < k \<and> k \<le> length (x # xs) \<longrightarrow> \<not> occurs_at sub (x # xs) k"
    proof (intro allI impI)
      fix k assume "0 < k \<and> k \<le> length (x # xs)"
      then show "\<not> occurs_at sub (x # xs) k" using none by (cases k) auto
    qed
    with p z show ?thesis by (simp add: last_occurrence_iff occurs_at_0)
  next
    case False
    with bytes_rfind_ge[of xs sub] have ge: "0 \<le> bytes_rfind xs sub" by linarith
    have eq: "nat (bytes_rfind (x # xs) sub) = Suc (nat (bytes_rfind xs sub))"
      using False ge by (simp add: Let_def nat_add_distrib)
    from Cons.IH[OF False] have occ: "occurs_at sub xs (nat (bytes_rfind xs sub))"
      and later: "\<forall>k. nat (bytes_rfind xs sub) < k \<and> k \<le> length xs \<longrightarrow> \<not> occurs_at sub xs k"
      by (auto simp: last_occurrence_iff)
    have "\<forall>k. Suc (nat (bytes_rfind xs sub)) < k \<and> k \<le> length (x # xs)
            \<longrightarrow> \<not> occurs_at sub (x # xs) k"
    proof (intro allI impI)
      fix k assume "Suc (nat (bytes_rfind xs sub)) < k \<and> k \<le> length (x # xs)"
      then show "\<not> occurs_at sub (x # xs) k" using later by (cases k) auto
    qed
    with occ show ?thesis unfolding eq last_occurrence_iff by simp
  qed
qed

lemma bytes_rfind_last:
  "last_occurrence sub xs j \<Longrightarrow> bytes_rfind xs sub = int j"
proof -
  assume lo: "last_occurrence sub xs j"
  then have oj: "occurs_at sub xs j" by (simp add: last_occurrence_iff)
  then have "j \<le> length xs" by (simp add: occurs_at_def)
  with oj have ne: "bytes_rfind xs sub \<noteq> - 1" by (auto simp: bytes_rfind_none)
  let ?r = "nat (bytes_rfind xs sub)"
  from bytes_rfind_found[OF ne] have lr: "last_occurrence sub xs ?r" .
  have "?r = j"
  proof (rule ccontr)
    assume "?r \<noteq> j"
    then consider "?r < j" | "j < ?r" by linarith
    then show False
    proof cases
      case 1
      with lr oj \<open>j \<le> length xs\<close> show False by (auto simp: last_occurrence_iff)
    next
      case 2
      from lr have "occurs_at sub xs ?r" by (simp add: last_occurrence_iff)
      moreover then have "?r \<le> length xs" by (simp add: occurs_at_def)
      ultimately show False using lo 2 by (auto simp: last_occurrence_iff)
    qed
  qed
  with ne bytes_rfind_ge[of xs sub] show ?thesis by linarith
qed

lemma occurs_at_gt_nth:
  "occurs_at ''>'' xs j \<longleftrightarrow> (j < length xs \<and> xs ! j = CHR ''>'')"
proof (cases "j < length xs")
  case True
  then have "drop j xs = xs ! j # drop (Suc j) xs" by (simp add: Cons_nth_drop_Suc)
  with True show ?thesis by (auto simp: occurs_at_def)
next
  case False
  then show ?thesis by (simp add: occurs_at_def)
qed

lemma marker_chars:
  assumes "occurs_at ''<?xml'' xs i"
  shows "i + 5 \<le> length xs" and "\<forall>d<5. xs ! (i + d) \<noteq> CHR ''>''"
proof -
  from assms obtain zs where dz: "drop i xs = ''<?xml'' @ zs"
    by (auto simp: occurs_at_def prefix_def)
  then have "length (drop i xs) = 5 + length zs" by simp
  then show len: "i + 5 \<le> length xs" by simp
  show "\<forall>d<5. xs ! (i + d) \<noteq> CHR ''>''"
  proof (intro allI impI)
    fix d :: nat assume d: "d < 5"
    have "xs ! (i + d) = drop i xs ! d" using len d by simp
    moreover have "drop i xs ! d \<noteq> CHR ''>''"
      using d unfolding dz by (auto simp: less_Suc_eq numeral_eq_Suc)
    ultimately show "xs ! (i + d) \<noteq> CHR ''>''" by simp
  qed
qed

lemma marker_before_gt:
  assumes m: "occurs_at ''<?xml'' xs i" and g: "occurs_at ''>'' xs j" and le: "i \<le> j"
  shows "i + 5 \<le> j"
proof (rule ccontr)
  assume "\<not> i + 5 \<le> j"
  with le have "j - i < 5" "j = i + (j - i)" by simp_all
  then obtain d where d: "d < 5" "j = i + d" by blast
  with marker_chars(2)[OF m] g show False by (simp add: occurs_at_gt_nth)
qed

lemma py_slice_nat:
  "i \<le> j \<Longrightarrow> j \<le> length xs \<Longrightarrow> py_slice xs (int i) (int j) = take (j - i) (drop i xs)"
  by (simp add: py_slice_def Let_def min_def nat_diff_distrib')

lemma extract_slice:
  assumes f: "first_occurrence ''<?xml'' bs i" and l: "last_occurrence ''>'' bs j" and lt: "i < j"
  shows "extract_xml_from_xsig_bytes bs = take (j + 1 - i) (drop i bs)"
proof -
  from l have "j < length bs" by (simp add: last_occurrence_iff occurs_at_gt_nth)
  then have "py_slice bs (int i) (int (j + 1)) = take (j + 1 - i) (drop i bs)"
    using lt by (intro py_slice_nat) auto
  then show ?thesis
    using bytes_find_first[OF f] bytes_rfind_last[OF l] lt
    by (simp add: extract_xml_from_xsig_bytes_def Let_def add.commute)
qed

lemma extract_cases:
  "extract_xml_from_xsig_bytes bs = bs \<or>
   (\<exists>i j. first_occurrence ''<?xml'' bs i \<and> last_occurrence ''>'' bs j \<and> i < j)"
proof (cases "bytes_find bs ''<?xml'' \<noteq> - 1 \<and> bytes_rfind bs ''>'' + 1 > bytes_find bs ''<?xml''")
  case False
  then show ?thesis by (auto simp: extract_xml_from_xsig_bytes_def Let_def)
next
  case True
  let ?i = "nat (bytes_find bs ''<?xml'')" and ?j = "nat (bytes_rfind bs ''>'')"
  from True have fi: "first_occurrence ''<?xml'' bs ?i" by (simp add: bytes_find_found)
  from True bytes_find_ge[of bs "''<?xml''"] have "bytes_rfind bs ''>'' \<noteq> - 1" by linarith
  then have lj: "last_occurrence ''>'' bs ?j" by (simp add: bytes_rfind_found)
  from True bytes_find_ge[of bs "''<?xml''"] have "?i \<le> ?j" by linarith
  with fi lj have "?i + 5 \<le> ?j"
    by (intro marker_before_gt) (auto simp: first_occurrence_iff last_occurrence_iff)
  then have "?i < ?j" by linarith
  with fi lj show ?thesis by blast
qed

lemma bytes_find_prefix: "prefix sub xs \<Longrightarrow> bytes_find xs sub = 0"
  by (cases xs) auto

lemma extract_idem:
  "extract_xml_from_xsig_bytes (extract_xml_from_xsig_bytes bs) = extract_xml_from_xsig_bytes bs"
proof -
  from extract_cases[of bs] show ?thesis
  proof
    assume "extract_xml_from_xsig_bytes bs = bs"
    then show ?thesis by simp
  next
    assume "\<exists>i j. first_occurrence ''<?xml'' bs i \<and> last_occurrence ''>'' bs j \<and> i < j"
    then obtain i j where f: "first_occurrence ''<?xml'' bs i"
      and l: "last_occurrence ''>'' bs j" and lt: "i < j" by blast
    define r where "r = take (j + 1 - i) (drop i bs)"
    have er: "extract_xml_from_xsig_bytes bs = r" unfolding r_def by (rule extract_slice[OF f l lt])
    from f have mi: "occurs_at ''<?xml'' bs i" by (simp add: first_occurrence_iff)
    from l have gj: "occurs_at ''>'' bs j" by (simp add: last_occurrence_iff)
    from gj have jlen: "j < length bs" and bj: "bs ! j = CHR ''>''" by (simp_all add: occurs_at_gt_nth)
    from marker_before_gt[OF mi gj] lt have far: "i + 5 \<le> j" by simp
    have lenr: "length r = j + 1 - i" using jlen lt by (simp add: r_def)
    from mi obtain zs where dz: "drop i bs = ''<?xml'' @ zs" by (auto simp: occurs_at_def prefix_def)
    have pre: "prefix ''<?xml'' r"
    proof -
      have "j + 1 - i = 5 + (j + 1 - i - 5)" using far by simp
      then have "r = take 5 (drop i bs) @ take (j + 1 - i - 5) (drop 5 (drop i bs))"
        unfolding r_def by (metis take_add)
      then show ?thesis unfolding dz by simp
    qed
    have rj: "r ! (j - i) = CHR ''>''" using bj lt jlen by (simp add: r_def)
    have "last_occurrence ''>'' r (j - i)"
      unfolding last_occurrence_iff occurs_at_gt_nth using rj lenr lt by auto
    then have rf: "bytes_rfind r ''>'' = int (j - i)" by (rule bytes_rfind_last)
    have "py_slice r (int 0) (int (length r)) = take (length r - 0) (drop 0 r)"
      by (intro py_slice_nat) auto
    moreover have "int (length r) = int (j - i) + 1" using lenr lt by simp
    ultimately have "py_slice r 0 (int (j - i) + 1) = r" by simp
    then have "extract_xml_from_xsig_bytes r = r"
      using bytes_find_prefix[OF pre] rf by (simp add: extract_xml_from_xsig_bytes_def Let_def)
    with er show ?thesis by simp
  qed
qed

lemma first_occurrence_unique:
  "first_occurrence sub xs i \<Longrightarrow> first_occurrence sub xs i' \<Longrightarrow> i = i'"
  using bytes_find_first[of sub xs i] bytes_find_first[of sub xs i'] by simp

lemma extract_marker_absent:
  assumes "\<not> occurs ''<?xml'' bs"
  shows "extract_xml_from_xsig_bytes bs = bs"
proof -
  from assms have "\<forall>k\<le>length bs. \<not> occurs_at ''<?xml'' bs k"
    unfolding occurs_def list_ex_iff set_upt atLeastLessThan_iff by (auto simp: less_Suc_eq_le)
  then have "bytes_find bs ''<?xml'' = - 1" by (simp add: bytes_find_none)
  then show ?thesis by (simp add: extract_xml_from_xsig_bytes_def)
qed

lemma extract_no_gt_after:
  assumes f: "first_occurrence ''<?xml'' bs i"
    and n: "list_all (\<lambda>k. \<not> occurs_at ''>'' bs k) [Suc i..<Suc (length bs)]"
  shows "extract_xml_from_xsig_bytes bs = bs"
proof -
  from extract_cases[of bs] show ?thesis
  proof
    assume "extract_xml_from_xsig_bytes bs = bs"
    then show ?thesis .
  next
    assume "\<exists>i j. first_occurrence ''<?xml'' bs i \<and> last_occurrence ''>'' bs j \<and> i < j"
    then obtain i' j where f': "first_occurrence ''<?xml'' bs i'"
      and l: "last_occurrence ''>'' bs j" and lt: "i' < j" by blast
    from first_occurrence_unique[OF f f'] lt have "i < j" by simp
    moreover from l have oj: "occurs_at ''>'' bs j" by (simp add: last_occurrence_iff)
    moreover from oj have "j \<le> length bs" by (simp add: occurs_at_def)
    ultimately have False using n
      unfolding list_all_iff set_upt atLeastLessThan_iff by (auto simp: Suc_le_eq less_Suc_eq_le)
    then show ?thesis ..
  qed
qed

lemma extract_shape:
  "extract_xml_from_xsig_bytes bs = bs \<or>
   (prefix ''<?xml'' (extract_xml_from_xsig_bytes bs) \<and>
    extract_xml_from_xsig_bytes bs \<noteq> [] \<and> last (extract_xml_from_xsig_bytes bs) = CHR ''>'')"
proof -
  from extract_cases[of bs] show ?thesis
  proof
    assume "extract_xml_from_xsig_bytes bs = bs"
    then show ?thesis by simp
  next
    assume "\<exists>i j. first_occurrence ''<?xml'' bs i \<and> last_occurrence ''>'' bs j \<and> i < j"
    then obtain i j where f: "first_occurrence ''<?xml'' bs i"
      and l: "last_occurrence ''>'' bs j" and lt: "i < j" by blast
    define r where "r = take (j + 1 - i) (drop i bs)"
    have er: "extract_xml_from_xsig_bytes bs = r" unfolding r_def by (rule extract_slice[OF f l lt])
    from f have mi: "occurs_at ''<?xml'' bs i" by (simp add: first_occurrence_iff)
    from l have gj: "occurs_at ''>'' bs j" by (simp add: last_occurrence_iff)
    from gj have jlen: "j < length bs" and bj: "bs ! j = CHR ''>''" by (simp_all add: occurs_at_gt_nth)
    from marker_before_gt[OF mi gj] lt have far: "i + 5 \<le> j" by simp
    have lenr: "length r = j + 1 - i" using jlen lt by (simp add: r_def)
    from mi obtain zs where dz: "drop i bs = ''<?xml'' @ zs" by (auto simp: occurs_at_def prefix_def)
    have pre: "prefix ''<?xml'' r"
    proof -
      have "j + 1 - i = 5 + (j + 1 - i - 5)" using far by simp
      then have "r = take 5 (drop i bs) @ take (j + 1 - i - 5) (drop 5 (drop i bs))"
        unfolding r_def by (metis take_add)
      then show ?thesis unfolding dz by simp
    qed
    have ne: "r \<noteq> []" using lenr lt by auto
    have "last r = r ! (length r - 1)" using ne by (rule last_conv_nth)
    also have "\<dots> = r ! (j - i)" using lenr lt by simp
    also have "\<dots> = CHR ''>''" using bj lt jlen by (simp add: r_def)
    finally show ?thesis using pre ne er by simp
  qed
qed

text \<open>
  C7. For every byte sequence \<open>bs\<close>: when the prolog marker first occurs at index \<open>i\<close>,
  the closing angle bracket last occurs at index \<open>j\<close> and \<open>i < j\<close>, the extractor
  returns the bytes from index \<open>i\<close> to index \<open>j\<close> inclusive; when the marker does not
  occur, or no closing angle bracket occurs after its first occurrence, the extractor
  returns \<open>bs\<close>. The extractor is a total function: it has no failing branch.
\<close>

theorem extractor_contract:
  "(first_occurrence ''<?xml'' bs i \<and> last_occurrence ''>'' bs j \<and> i < j
      \<longrightarrow> extract_xml_from_xsig_bytes bs = take (j + 1 - i) (drop i bs))
   \<and> (\<not> occurs ''<?xml'' bs \<longrightarrow> extract_xml_from_xsig_bytes bs = bs)
   \<and> (first_occurrence ''<?xml'' bs i
        \<and> list_all (\<lambda>k. \<not> occurs_at ''>'' bs k) [Suc i..<Suc (length bs)]
      \<longrightarrow> extract_xml_from_xsig_bytes bs = bs)"
  using extract_slice extract_marker_absent extract_no_gt_after by blast

theorem extractor_contract_witness:
  "first_occurrence ''<?xml'' ''PK<?xml?><a>b</a>zz'' 2
   \<and> last_occurrence ''>'' ''PK<?xml?><a>b</a>zz'' 16
   \<and> extract_xml_from_xsig_bytes ''PK<?xml?><a>b</a>zz'' = ''<?xml?><a>b</a>''
   \<and> \<not> occurs ''<?xml'' ''<a>b</a>''
   \<and> extract_xml_from_xsig_bytes ''<a>b</a>'' = ''<a>b</a>''
   \<and> first_occurrence ''<?xml'' ''a>b<?xml'' 3
   \<and> list_all (\<lambda>k. \<not> occurs_at ''>'' ''a>b<?xml'' k) [Suc 3..<Suc (length ''a>b<?xml'')]
   \<and> extract_xml_from_xsig_bytes ''a>b<?xml'' = ''a>b<?xml''"
proof -
  have f1: "first_occurrence ''<?xml'' ''PK<?xml?><a>b</a>zz'' 2" by code_simp
  have l1: "last_occurrence ''>'' ''PK<?xml?><a>b</a>zz'' 16" by code_simp
  have n2: "\<not> occurs ''<?xml'' ''<a>b</a>''" by code_simp
  have f3: "first_occurrence ''<?xml'' ''a>b<?xml'' 3" by code_simp
  have n3: "list_all (\<lambda>k. \<not> occurs_at ''>'' ''a>b<?xml'' k) [Suc 3..<Suc (length ''a>b<?xml'')]"
    by code_simp
  have t1: "take (16 + 1 - 2) (drop 2 ''PK<?xml?><a>b</a>zz'') = ''<?xml?><a>b</a>''" by simp
  from extractor_contract[of "''PK<?xml?><a>b</a>zz''" 2 16] f1 l1 t1
  have e1: "extract_xml_from_xsig_bytes ''PK<?xml?><a>b</a>zz'' = ''<?xml?><a>b</a>''" by simp
  from extractor_contract[of "''<a>b</a>''" 0 0] n2
  have e2: "extract_xml_from_xsig_bytes ''<a>b</a>'' = ''<a>b</a>''" by blast
  from extractor_contract[of "''a>b<?xml''" 3 0] f3 n3
  have e3: "extract_xml_from_xsig_bytes ''a>b<?xml'' = ''a>b<?xml''" by blast
  from f1 l1 e1 n2 e2 f3 n3 e3 show ?thesis by blast
qed

text \<open>
  C10. The extractor is idempotent: extracting from its own output gives that output
  again. Its output is the unchanged input, or it starts with the prolog marker and ends
  with a closing angle bracket.
\<close>

theorem extractor_idempotent:
  "extract_xml_from_xsig_bytes (extract_xml_from_xsig_bytes bs) = extract_xml_from_xsig_bytes bs
   \<and> (extract_xml_from_xsig_bytes bs = bs
       \<or> (prefix ''<?xml'' (extract_xml_from_xsig_bytes bs)
           \<and> extract_xml_from_xsig_bytes bs \<noteq> []
           \<and> last (extract_xml_from_xsig_bytes bs) = CHR ''>''))"
  using extract_idem extract_shape by blast

section \<open>Properties of the Certificate Interpreter\<close>

lemma states_distinct:
  "not_yet_valid \<noteq> expired" "not_yet_valid \<noteq> currently_valid" "expired \<noteq> currently_valid"
  by (simp_all add: not_yet_valid_def expired_def currently_valid_def)

lemma estado_cases:
  "(estado_actual now f u = not_yet_valid \<longleftrightarrow> now < f)
   \<and> (estado_actual now f u = expired \<longleftrightarrow> \<not> now < f \<and> u < now)
   \<and> (estado_actual now f u = currently_valid \<longleftrightarrow> f \<le> now \<and> now \<le> u)"
proof -
  have o: "now < f \<longleftrightarrow> \<not> f \<le> now" "u < now \<longleftrightarrow> \<not> now \<le> u"
    by (simp_all add: not_le)
  show ?thesis
    unfolding estado_actual_def o
    by (simp add: states_distinct states_distinct[symmetric])
qed

lemma signature_info_success:
  assumes "findtext xml_root [Descendant ds_X509Certificate] [] = c" and "c \<noteq> []"
    and "b64decode l c = Inr der" and "load_der_x509_certificate l der = Inr cert"
  shows "extract_signature_info_from_xml l now xml_root =
     [(''estado'', ''Firma encontrada''),
      (''firmante'', first_attribute (subject cert) COMMON_NAME ''N/A''),
      (''nif'', first_attribute (subject cert) ''2.5.4.5'' ''N/A''),
      (''algoritmo'', case signature_hash_algorithm cert of None \<Rightarrow> ''N/A'' | Some name \<Rightarrow> upper name),
      (''fecha_firma'', findtext xml_root [Descendant xades_SigningTime] ''No especificada''),
      (''valido_desde'', strftime_Ymd (not_valid_before cert)),
      (''valido_hasta'', strftime_Ymd (not_valid_after cert)),
      (''estado_certificado'', estado_actual now (not_valid_before cert) (not_valid_after cert)),
      (''validez_en_firma'',
         validez_en_firma l (findtext xml_root [Descendant xades_SigningTime] ''No especificada'')
           (not_valid_before cert) (not_valid_after cert)),
      (''autoridad_certificadora'', first_attribute (issuer cert) COMMON_NAME ''No disponible'')]"
  using assms by (simp add: extract_signature_info_from_xml_def signature_info_body_def Let_def)

lemma signature_info_absent:
  assumes "findtext xml_root [Descendant ds_X509Certificate] [] = []"
  shows "extract_signature_info_from_xml l now xml_root =
           [(''estado'', ''No se encontr'' @ [o_acute] @ '' certificado'')]"
  using assms by (simp add: extract_signature_info_from_xml_def signature_info_body_def)

lemma signature_info_decode_error:
  assumes "findtext xml_root [Descendant ds_X509Certificate] [] = c" and "c \<noteq> []"
    and "b64decode l c = Inl e"
  shows "extract_signature_info_from_xml l now xml_root =
           [(''estado'', ''Error al extraer firma: '' @ exn_msg e)]"
  using assms by (simp add: extract_signature_info_from_xml_def signature_info_body_def)

lemma signature_info_parse_error:
  assumes "findtext xml_root [Descendant ds_X509Certificate] [] = c" and "c \<noteq> []"
    and "b64decode l c = Inr der" and "load_der_x509_certificate l der = Inl e"
  shows "extract_signature_info_from_xml l now xml_root =
           [(''estado'', ''Error al extraer firma: '' @ exn_msg e)]"
  using assms by (simp add: extract_signature_info_from_xml_def signature_info_body_def)

lemma not_found_absent: "\<not> firma_found [(''estado'', ''No se encontr'' @ [o_acute] @ '' certificado'')]"
  by (simp add: firma_found_def dict_get_def)

lemma not_found_error: "\<not> firma_found [(''estado'', ''Error al extraer firma: '' @ m)]"
  by (simp add: firma_found_def dict_get_def)

lemma example_cert_text:
  "findtext example_document [Descendant ds_X509Certificate] [] = ''TUlJ''"
  by (simp add: findtext_def find_def findall_def example_document_def example_invoice_element_def
        example_totals_element_def ds_X509Certificate_def)

lemma example_signing_text:
  "findtext example_document [Descendant xades_SigningTime] ''No especificada'' = ''2025-03-01T10:00:00+01:00''"
  by (simp add: findtext_def find_def findall_def example_document_def example_invoice_element_def
        example_totals_element_def xades_SigningTime_def)

lemma example_lib_simps:
  "b64decode example_lib ''TUlJ'' = Inr ''0''"
  "load_der_x509_certificate example_lib ''0'' = Inr example_certificate"
  "date_parser_parse example_lib ''2025-03-01T10:00:00+01:00'' = Inr ((2025, 3, 1, 10, 0, 0, 0), Some 60)"
  "date_parser_parse example_lib ''No especificada'' = Inl (Exn ''ParserError'' ''Unknown string format: No especificada'')"
  by (simp_all add: example_lib_def)

text \<open>
  C3. For every validity window, that is \<open>validFrom \<le> validUntil\<close>, and every evaluation
  instant, the current validity state is exactly one of three distinct values: not yet
  valid exactly when the instant is strictly before \<open>validFrom\<close>, expired exactly when it
  is strictly after \<open>validUntil\<close>, valid exactly in every other case; both boundary
  instants are valid. The state stored in the signature information is this
  classification of the certificate's window at the evaluation instant.
\<close>

theorem validity_state:
  "(f \<le> u \<longrightarrow>
      (estado_actual now f u = not_yet_valid \<longleftrightarrow> now < f)
      \<and> (estado_actual now f u = expired \<longleftrightarrow> u < now)
      \<and> (estado_actual now f u = currently_valid \<longleftrightarrow> \<not> now < f \<and> \<not> u < now)
      \<and> estado_actual now f u \<in> {not_yet_valid, expired, currently_valid}
      \<and> not_yet_valid \<noteq> expired \<and> not_yet_valid \<noteq> currently_valid \<and> expired \<noteq> currently_valid
      \<and> estado_actual f f u = currently_valid
      \<and> estado_actual u f u = currently_valid)
   \<and> (findtext xml_root [Descendant ds_X509Certificate] [] = c \<and> c \<noteq> []
        \<and> b64decode l c = Inr der \<and> load_der_x509_certificate l der = Inr cert \<longrightarrow>
        map_of (extract_signature_info_from_xml l now xml_root) ''estado_certificado''
          = Some (estado_actual now (not_valid_before cert) (not_valid_after cert)))"
proof -
  have w: "(estado_actual now f u = not_yet_valid \<longleftrightarrow> now < f)
      \<and> (estado_actual now f u = expired \<longleftrightarrow> u < now)
      \<and> (estado_actual now f u = currently_valid \<longleftrightarrow> \<not> now < f \<and> \<not> u < now)
      \<and> estado_actual now f u \<in> {not_yet_valid, expired, currently_valid}
      \<and> not_yet_valid \<noteq> expired \<and> not_yet_valid \<noteq> currently_valid \<and> expired \<noteq> currently_valid
      \<and> estado_actual f f u = currently_valid
      \<and> estado_actual u f u = currently_valid" if fu: "f \<le> u"
  proof -
    have k: "\<not> now < f" if "u < now"
    proof
      assume a: "now < f"
      from fu that have "f < now" by (rule le_less_trans)
      with less_not_sym[OF a] show False by simp
    qed
    have n: "(\<not> now < f) = (f \<le> now)" "(\<not> u < now) = (now \<le> u)" by (simp_all add: not_less)
    have a1: "estado_actual now f u = not_yet_valid \<longleftrightarrow> now < f"
      using estado_cases[of now f u] by (rule conjunct1)
    have a2: "estado_actual now f u = expired \<longleftrightarrow> u < now"
      using estado_cases[of now f u, THEN conjunct2, THEN conjunct1] k by blast
    have a3: "estado_actual now f u = currently_valid \<longleftrightarrow> \<not> now < f \<and> \<not> u < now"
      unfolding n using estado_cases[of now f u] by (rule conjunct2[THEN conjunct2])
    have a4: "estado_actual now f u \<in> {not_yet_valid, expired, currently_valid}"
      by (simp add: estado_actual_def)
    have b1: "estado_actual f f u = currently_valid"
      using estado_cases[of f f u] fu by simp
    have b2: "estado_actual u f u = currently_valid"
      using estado_cases[of u f u] fu by simp
    from a1 a2 a3 a4 states_distinct b1 b2 show ?thesis by (intro conjI)
  qed
  have d: "findtext xml_root [Descendant ds_X509Certificate] [] = c \<and> c \<noteq> []
        \<and> b64decode l c = Inr der \<and> load_der_x509_certificate l der = Inr cert \<longrightarrow>
        map_of (extract_signature_info_from_xml l now xml_root) ''estado_certificado''
          = Some (estado_actual now (not_valid_before cert) (not_valid_after cert))"
  proof (intro impI, elim conjE)
    assume "findtext xml_root [Descendant ds_X509Certificate] [] = c" "c \<noteq> []"
      "b64decode l c = Inr der" "load_der_x509_certificate l der = Inr cert"
    from signature_info_success[OF this, of now] show "map_of (extract_signature_info_from_xml l now xml_root)
        ''estado_certificado'' = Some (estado_actual now (not_valid_before cert) (not_valid_after cert))"
      by simp
  qed
  show ?thesis by (rule conjI[OF impI[OF w] d])
qed

theorem validity_state_witness:
  "((2024, 1, 1, 0, 0, 0, 0) :: datetime) \<le> (2026, 1, 1, 0, 0, 0, 0)
   \<and> estado_actual (2025, 6, 1, 0, 0, 0, 0) (2024, 1, 1, 0, 0, 0, 0) (2026, 1, 1, 0, 0, 0, 0) = currently_valid
   \<and> estado_actual (2024, 1, 1, 0, 0, 0, 0) (2024, 1, 1, 0, 0, 0, 0) (2026, 1, 1, 0, 0, 0, 0) = currently_valid
   \<and> estado_actual (2026, 1, 1, 0, 0, 0, 0) (2024, 1, 1, 0, 0, 0, 0) (2026, 1, 1, 0, 0, 0, 0) = currently_valid
   \<and> findtext example_document [Descendant ds_X509Certificate] [] = ''TUlJ''
   \<and> b64decode example_lib ''TUlJ'' = Inr ''0''
   \<and> load_der_x509_certificate example_lib ''0'' = Inr example_certificate
   \<and> map_of (extract_signature_info_from_xml example_lib (2025, 6, 1, 0, 0, 0, 0) example_document)
        ''estado_certificado'' = Some currently_valid"
proof -
  let ?f = "(2024, 1, 1, 0, 0, 0, 0) :: datetime" and ?u = "(2026, 1, 1, 0, 0, 0, 0) :: datetime"
    and ?now = "(2025, 6, 1, 0, 0, 0, 0) :: datetime"
  have h: "?f \<le> ?u" by simp
  have n: "\<not> ?now < ?f \<and> \<not> ?u < ?now" by simp
  have w: "not_valid_before example_certificate = ?f" "not_valid_after example_certificate = ?u"
    by (simp_all add: example_certificate_def)
  note t = validity_state[where now = ?now and f = ?f and u = ?u and xml_root = example_document
      and c = "''TUlJ''" and l = example_lib and der = "''0''" and cert = example_certificate]
  note t1 = t[THEN conjunct1, rule_format, OF h]
  from t1[THEN conjunct2, THEN conjunct2, THEN conjunct1] n
  have a: "estado_actual ?now ?f ?u = currently_valid" by (rule iffD2)
  have b1: "estado_actual ?f ?f ?u = currently_valid"
    using t1 by (elim conjE)
  have b2: "estado_actual ?u ?f ?u = currently_valid"
    using t1 by (elim conjE)
  have c: "findtext example_document [Descendant ds_X509Certificate] [] = ''TUlJ'' \<and> ''TUlJ'' \<noteq> []
        \<and> b64decode example_lib ''TUlJ'' = Inr ''0''
        \<and> load_der_x509_certificate example_lib ''0'' = Inr example_certificate"
    using example_cert_text example_lib_simps(1,2) by simp
  from t[THEN conjunct2, rule_format, OF c]
  have d: "map_of (extract_signature_info_from_xml example_lib ?now example_document)
        ''estado_certificado'' = Some currently_valid"
    unfolding w a .
  show ?thesis
    by (intro conjI) (rule h a b1 b2 d | rule c[THEN conjunct1] | rule example_lib_simps)+
qed

lemma signing_states_distinct:
  "valid_at_signing \<noteq> invalid_at_signing"
  "''No se pudo validar la fecha de firma: '' @ m \<noteq> valid_at_signing"
  "''No se pudo validar la fecha de firma: '' @ m \<noteq> invalid_at_signing"
  by (simp_all add: valid_at_signing_def invalid_at_signing_def)

text \<open>
  C4. When the signing-time text parses, its offset is dropped and the state is valid at
  signing exactly when the resulting naive instant lies in the closed validity window,
  and invalid at signing otherwise; when it does not parse, the state is the
  text \<open>No se pudo validar la fecha de firma: \<close> followed by the parser's message, so the
  reason of the failure can be read back from it; it differs from both other states. The state stored in the signature information is this one, computed from the
  document's signing-time text (or the default text when the element is absent).
\<close>

theorem signing_validity:
  "replace_tzinfo_None (naive, offset) = naive
   \<and> (date_parser_parse l s = Inr dt \<longrightarrow>
        (validez_en_firma l s f u = valid_at_signing
           \<longleftrightarrow> f \<le> replace_tzinfo_None dt \<and> replace_tzinfo_None dt \<le> u)
        \<and> (validez_en_firma l s f u = invalid_at_signing
           \<longleftrightarrow> \<not> (f \<le> replace_tzinfo_None dt \<and> replace_tzinfo_None dt \<le> u)))
   \<and> (date_parser_parse l s = Inl e \<longrightarrow>
        validez_en_firma l s f u = ''No se pudo validar la fecha de firma: '' @ exn_msg e
        \<and> drop 38 (validez_en_firma l s f u) = exn_msg e
        \<and> validez_en_firma l s f u \<noteq> valid_at_signing
        \<and> validez_en_firma l s f u \<noteq> invalid_at_signing)
   \<and> (findtext xml_root [Descendant ds_X509Certificate] [] = c \<and> c \<noteq> []
        \<and> b64decode l c = Inr der \<and> load_der_x509_certificate l der = Inr cert \<longrightarrow>
        map_of (extract_signature_info_from_xml l now xml_root) ''validez_en_firma''
          = Some (validez_en_firma l (findtext xml_root [Descendant xades_SigningTime] ''No especificada'')
                    (not_valid_before cert) (not_valid_after cert)))"
proof -
  have a: "replace_tzinfo_None (naive, offset) = naive" by (simp add: replace_tzinfo_None_def)
  have b: "date_parser_parse l s = Inr dt \<longrightarrow>
        (validez_en_firma l s f u = valid_at_signing
           \<longleftrightarrow> f \<le> replace_tzinfo_None dt \<and> replace_tzinfo_None dt \<le> u)
        \<and> (validez_en_firma l s f u = invalid_at_signing
           \<longleftrightarrow> \<not> (f \<le> replace_tzinfo_None dt \<and> replace_tzinfo_None dt \<le> u))"
    by (simp add: validez_en_firma_def Let_def signing_states_distinct signing_states_distinct(1)[symmetric])
  have c: "date_parser_parse l s = Inl e \<longrightarrow>
        validez_en_firma l s f u = ''No se pudo validar la fecha de firma: '' @ exn_msg e
        \<and> drop 38 (validez_en_firma l s f u) = exn_msg e
        \<and> validez_en_firma l s f u \<noteq> valid_at_signing
        \<and> validez_en_firma l s f u \<noteq> invalid_at_signing"
    by (simp add: validez_en_firma_def valid_at_signing_def invalid_at_signing_def)
  have d: "findtext xml_root [Descendant ds_X509Certificate] [] = c \<and> c \<noteq> []
        \<and> b64decode l c = Inr der \<and> load_der_x509_certificate l der = Inr cert \<longrightarrow>
        map_of (extract_signature_info_from_xml l now xml_root) ''validez_en_firma''
          = Some (validez_en_firma l (findtext xml_root [Descendant xades_SigningTime] ''No especificada'')
                    (not_valid_before cert) (not_valid_after cert))"
  proof (intro impI, elim conjE)
    assume "findtext xml_root [Descendant ds_X509Certificate] [] = c" "c \<noteq> []"
      "b64decode l c = Inr der" "load_der_x509_certificate l der = Inr cert"
    from signature_info_success[OF this, of now]
    show "map_of (extract_signature_info_from_xml l now xml_root) ''validez_en_firma''
          = Some (validez_en_firma l (findtext xml_root [Descendant xades_SigningTime] ''No especificada'')
                    (not_valid_before cert) (not_valid_after cert))"
      by simp
  qed
  from a b c d show ?thesis by (intro conjI)
qed

theorem signing_validity_witness:
  "date_parser_parse example_lib ''2025-03-01T10:00:00+01:00'' = Inr ((2025, 3, 1, 10, 0, 0, 0), Some 60)
   \<and> validez_en_firma example_lib ''2025-03-01T10:00:00+01:00''
        (2024, 1, 1, 0, 0, 0, 0) (2026, 1, 1, 0, 0, 0, 0) = valid_at_signing
   \<and> date_parser_parse example_lib ''No especificada''
        = Inl (Exn ''ParserError'' ''Unknown string format: No especificada'')
   \<and> validez_en_firma example_lib ''No especificada'' (2024, 1, 1, 0, 0, 0, 0) (2026, 1, 1, 0, 0, 0, 0)
        = ''No se pudo validar la fecha de firma: Unknown string format: No especificada''
   \<and> findtext example_document [Descendant ds_X509Certificate] [] = ''TUlJ''
   \<and> b64decode example_lib ''TUlJ'' = Inr ''0''
   \<and> load_der_x509_certificate example_lib ''0'' = Inr example_certificate
   \<and> map_of (extract_signature_info_from_xml example_lib (2025, 6, 1, 0, 0, 0, 0) example_document)
        ''validez_en_firma'' = Some valid_at_signing"
proof -
  let ?f = "(2024, 1, 1, 0, 0, 0, 0) :: datetime" and ?u = "(2026, 1, 1, 0, 0, 0, 0) :: datetime"
    and ?now = "(2025, 6, 1, 0, 0, 0, 0) :: datetime"
  let ?s = "''2025-03-01T10:00:00+01:00''"
  let ?dt = "((2025, 3, 1, 10, 0, 0, 0), Some 60) :: aware_datetime"
  let ?e = "Exn ''ParserError'' ''Unknown string format: No especificada''"
  have w: "not_valid_before example_certificate = ?f" "not_valid_after example_certificate = ?u"
    by (simp_all add: example_certificate_def)
  have n: "?f \<le> replace_tzinfo_None ?dt \<and> replace_tzinfo_None ?dt \<le> ?u"
    by (simp add: replace_tzinfo_None_def)
  note t = signing_validity[of "fst ?dt" "snd ?dt" example_lib ?s ?dt ?f ?u "?e"
      example_document "''TUlJ''" "''0''" example_certificate ?now]
  from t[THEN conjunct2, THEN conjunct1, rule_format, OF example_lib_simps(3), THEN conjunct1] n
  have a: "validez_en_firma example_lib ?s ?f ?u = valid_at_signing" by (rule iffD2)
  note t2 = signing_validity[of "fst ?dt" "snd ?dt" example_lib "''No especificada''" ?dt ?f ?u "?e"
      example_document "''TUlJ''" "''0''" example_certificate ?now]
  from t2[THEN conjunct2, THEN conjunct2, THEN conjunct1, rule_format, OF example_lib_simps(4), THEN conjunct1]
  have b: "validez_en_firma example_lib ''No especificada'' ?f ?u
             = ''No se pudo validar la fecha de firma: Unknown string format: No especificada''" by simp
  have c: "findtext example_document [Descendant ds_X509Certificate] [] = ''TUlJ'' \<and> ''TUlJ'' \<noteq> []
        \<and> b64decode example_lib ''TUlJ'' = Inr ''0''
        \<and> load_der_x509_certificate example_lib ''0'' = Inr example_certificate"
    using example_cert_text example_lib_simps(1,2) by simp
  from t[THEN conjunct2, THEN conjunct2, THEN conjunct2, rule_format, OF c]
  have d: "map_of (extract_signature_info_from_xml example_lib ?now example_document)
        ''validez_en_firma'' = Some valid_at_signing"
    unfolding w example_signing_text a .
  from a b c d show ?thesis
    by (intro conjI) (rule a b d | rule c[THEN conjunct1] | rule example_lib_simps)+
qed

text \<open>
  C5. The interpreter returns signature information for every document and every
  behaviour of the libraries: the exceptions of the decoder and of the certificate loader
  are caught and turned into an explanatory text. When the certificate text is absent or
  empty, when decoding raises and when loading raises, the result is a single explanatory
  entry and the renderer's test for a found signature fails on it; when both succeed the
  test holds.
\<close>

theorem interpreter_never_raises:
  "(findtext xml_root [Descendant ds_X509Certificate] [] = [] \<longrightarrow>
      extract_signature_info_from_xml l now xml_root
        = [(''estado'', ''No se encontr'' @ [o_acute] @ '' certificado'')]
      \<and> \<not> firma_found (extract_signature_info_from_xml l now xml_root))
   \<and> (findtext xml_root [Descendant ds_X509Certificate] [] = c \<and> c \<noteq> [] \<and> b64decode l c = Inl e \<longrightarrow>
      extract_signature_info_from_xml l now xml_root = [(''estado'', ''Error al extraer firma: '' @ exn_msg e)]
      \<and> \<not> firma_found (extract_signature_info_from_xml l now xml_root))
   \<and> (findtext xml_root [Descendant ds_X509Certificate] [] = c \<and> c \<noteq> [] \<and> b64decode l c = Inr der
        \<and> load_der_x509_certificate l der = Inl e \<longrightarrow>
      extract_signature_info_from_xml l now xml_root = [(''estado'', ''Error al extraer firma: '' @ exn_msg e)]
      \<and> \<not> firma_found (extract_signature_info_from_xml l now xml_root))
   \<and> (findtext xml_root [Descendant ds_X509Certificate] [] = c \<and> c \<noteq> [] \<and> b64decode l c = Inr der
        \<and> load_der_x509_certificate l der = Inr cert \<longrightarrow>
      map_of (extract_signature_info_from_xml l now xml_root) ''estado'' = Some ''Firma encontrada''
      \<and> firma_found (extract_signature_info_from_xml l now xml_root))
   \<and> (case signature_info_body l now xml_root of
         Inr info \<Rightarrow> extract_signature_info_from_xml l now xml_root = info
       | Inl e' \<Rightarrow> extract_signature_info_from_xml l now xml_root
                    = [(''estado'', ''Error al extraer firma: '' @ exn_msg e')])
   \<and> map_of (extract_signature_info_from_xml l now xml_root) ''estado'' \<noteq> None"
proof -
  have a: "findtext xml_root [Descendant ds_X509Certificate] [] = [] \<longrightarrow>
      extract_signature_info_from_xml l now xml_root
        = [(''estado'', ''No se encontr'' @ [o_acute] @ '' certificado'')]
      \<and> \<not> firma_found (extract_signature_info_from_xml l now xml_root)"
    using not_found_absent by (auto simp: signature_info_absent simp del: append.simps)
  have b: "findtext xml_root [Descendant ds_X509Certificate] [] = c \<and> c \<noteq> [] \<and> b64decode l c = Inl e \<longrightarrow>
      extract_signature_info_from_xml l now xml_root = [(''estado'', ''Error al extraer firma: '' @ exn_msg e)]
      \<and> \<not> firma_found (extract_signature_info_from_xml l now xml_root)"
  proof (intro impI, elim conjE)
    assume "findtext xml_root [Descendant ds_X509Certificate] [] = c" "c \<noteq> []" "b64decode l c = Inl e"
    from signature_info_decode_error[OF this, of now] not_found_error[of "exn_msg e"]
    show "extract_signature_info_from_xml l now xml_root = [(''estado'', ''Error al extraer firma: '' @ exn_msg e)]
      \<and> \<not> firma_found (extract_signature_info_from_xml l now xml_root)" by simp
  qed
  have c: "findtext xml_root [Descendant ds_X509Certificate] [] = c \<and> c \<noteq> [] \<and> b64decode l c = Inr der
        \<and> load_der_x509_certificate l der = Inl e \<longrightarrow>
      extract_signature_info_from_xml l now xml_root = [(''estado'', ''Error al extraer firma: '' @ exn_msg e)]
      \<and> \<not> firma_found (extract_signature_info_from_xml l now xml_root)"
  proof (intro impI, elim conjE)
    assume "findtext xml_root [Descendant ds_X509Certificate] [] = c" "c \<noteq> []" "b64decode l c = Inr der"
      "load_der_x509_certificate l der = Inl e"
    from signature_info_parse_error[OF this, of now] not_found_error[of "exn_msg e"]
    show "extract_signature_info_from_xml l now xml_root = [(''estado'', ''Error al extraer firma: '' @ exn_msg e)]
      \<and> \<not> firma_found (extract_signature_info_from_xml l now xml_root)" by simp
  qed
  have d: "findtext xml_root [Descendant ds_X509Certificate] [] = c \<and> c \<noteq> [] \<and> b64decode l c = Inr der
        \<and> load_der_x509_certificate l der = Inr cert \<longrightarrow>
      map_of (extract_signature_info_from_xml l now xml_root) ''estado'' = Some ''Firma encontrada''
      \<and> firma_found (extract_signature_info_from_xml l now xml_root)"
  proof (intro impI, elim conjE)
    assume "findtext xml_root [Descendant ds_X509Certificate] [] = c" "c \<noteq> []" "b64decode l c = Inr der"
      "load_der_x509_certificate l der = Inr cert"
    from signature_info_success[OF this, of now]
    show "map_of (extract_signature_info_from_xml l now xml_root) ''estado'' = Some ''Firma encontrada''
      \<and> firma_found (extract_signature_info_from_xml l now xml_root)"
      by (simp add: firma_found_def dict_get_def)
  qed
  have e: "case signature_info_body l now xml_root of
         Inr info \<Rightarrow> extract_signature_info_from_xml l now xml_root = info
       | Inl e' \<Rightarrow> extract_signature_info_from_xml l now xml_root
                    = [(''estado'', ''Error al extraer firma: '' @ exn_msg e')]"
    by (simp add: extract_signature_info_from_xml_def split: sum.splits)
  have f: "map_of (extract_signature_info_from_xml l now xml_root) ''estado'' \<noteq> None"
    by (simp add: extract_signature_info_from_xml_def signature_info_body_def Let_def split: sum.splits)
  from a b c d e f show ?thesis by (intro conjI)
qed

lemma example_lookups:
  "findtext unsigned_document [Descendant ds_X509Certificate] [] = []"
  "findtext (document_with_certificate c) [Descendant ds_X509Certificate] [] = c"
  by (simp_all add: findtext_def find_def findall_def unsigned_document_def
        document_with_certificate_def ds_X509Certificate_def)

lemma example_lib_errors:
  "b64decode example_lib ''@@'' = Inl (Exn ''Error'' ''Incorrect padding'')"
  "b64decode example_lib ''AAAA'' = Inr ''junk''"
  "load_der_x509_certificate example_lib ''junk'' = Inl (ValueError ''error parsing asn1 value'')"
  by (simp_all add: example_lib_def)

theorem interpreter_never_raises_witness:
  "findtext unsigned_document [Descendant ds_X509Certificate] [] = []
   \<and> \<not> firma_found (extract_signature_info_from_xml example_lib (2025, 6, 1, 0, 0, 0, 0) unsigned_document)
   \<and> findtext (document_with_certificate ''@@'') [Descendant ds_X509Certificate] [] = ''@@''
   \<and> b64decode example_lib ''@@'' = Inl (Exn ''Error'' ''Incorrect padding'')
   \<and> extract_signature_info_from_xml example_lib (2025, 6, 1, 0, 0, 0, 0) (document_with_certificate ''@@'')
        = [(''estado'', ''Error al extraer firma: Incorrect padding'')]
   \<and> findtext (document_with_certificate ''AAAA'') [Descendant ds_X509Certificate] [] = ''AAAA''
   \<and> b64decode example_lib ''AAAA'' = Inr ''junk''
   \<and> load_der_x509_certificate example_lib ''junk'' = Inl (ValueError ''error parsing asn1 value'')
   \<and> extract_signature_info_from_xml example_lib (2025, 6, 1, 0, 0, 0, 0) (document_with_certificate ''AAAA'')
        = [(''estado'', ''Error al extraer firma: error parsing asn1 value'')]
   \<and> findtext example_document [Descendant ds_X509Certificate] [] = ''TUlJ''
   \<and> b64decode example_lib ''TUlJ'' = Inr ''0''
   \<and> load_der_x509_certificate example_lib ''0'' = Inr example_certificate
   \<and> firma_found (extract_signature_info_from_xml example_lib (2025, 6, 1, 0, 0, 0, 0) example_document)"
proof -
  let ?now = "(2025, 6, 1, 0, 0, 0, 0) :: datetime"
  note t1 = interpreter_never_raises[where xml_root = unsigned_document and c = "''@@''" and l = example_lib and e = "Exn ''Error'' ''Incorrect padding''" and der = "''junk''" and cert = example_certificate and now = ?now]
  from t1[THEN conjunct1, rule_format, OF example_lookups(1)]
  have a: "\<not> firma_found (extract_signature_info_from_xml example_lib ?now unsigned_document)"
    by (rule conjunct2)
  note t2 = interpreter_never_raises[where xml_root = "document_with_certificate ''@@''" and c = "''@@''" and l = example_lib and e = "Exn ''Error'' ''Incorrect padding''" and der = "''junk''" and cert = example_certificate and now = ?now]
  have h2: "findtext (document_with_certificate ''@@'') [Descendant ds_X509Certificate] [] = ''@@''
      \<and> ''@@'' \<noteq> [] \<and> b64decode example_lib ''@@'' = Inl (Exn ''Error'' ''Incorrect padding'')"
    using example_lookups(2)[of "''@@''"] example_lib_errors(1) by simp
  from t2[THEN conjunct2, THEN conjunct1, rule_format, OF h2]
  have b: "extract_signature_info_from_xml example_lib ?now (document_with_certificate ''@@'')
        = [(''estado'', ''Error al extraer firma: Incorrect padding'')]" by simp
  note t3 = interpreter_never_raises[where xml_root = "document_with_certificate ''AAAA''" and c = "''AAAA''" and l = example_lib and e = "ValueError ''error parsing asn1 value''" and der = "''junk''" and cert = example_certificate and now = ?now]
  have h3: "findtext (document_with_certificate ''AAAA'') [Descendant ds_X509Certificate] [] = ''AAAA''
      \<and> ''AAAA'' \<noteq> [] \<and> b64decode example_lib ''AAAA'' = Inr ''junk''
      \<and> load_der_x509_certificate example_lib ''junk'' = Inl (ValueError ''error parsing asn1 value'')"
    using example_lookups(2)[of "''AAAA''"] example_lib_errors(2,3) by simp
  from t3[THEN conjunct2, THEN conjunct2, THEN conjunct1, rule_format, OF h3]
  have c: "extract_signature_info_from_xml example_lib ?now (document_with_certificate ''AAAA'')
        = [(''estado'', ''Error al extraer firma: error parsing asn1 value'')]" by simp
  note t4 = interpreter_never_raises[where xml_root = example_document and c = "''TUlJ''" and l = example_lib and e = "ValueError ''error parsing asn1 value''" and der = "''0''" and cert = example_certificate and now = ?now]
  have h4: "findtext example_document [Descendant ds_X509Certificate] [] = ''TUlJ'' \<and> ''TUlJ'' \<noteq> []
        \<and> b64decode example_lib ''TUlJ'' = Inr ''0''
        \<and> load_der_x509_certificate example_lib ''0'' = Inr example_certificate"
    using example_cert_text example_lib_simps(1,2) by simp
  from t4[THEN conjunct2, THEN conjunct2, THEN conjunct2, THEN conjunct1, rule_format, OF h4]
  have d: "firma_found (extract_signature_info_from_xml example_lib ?now example_document)"
    by (rule conjunct2)
  show ?thesis
    by (intro conjI)
       (rule a b c d example_lookups example_lib_errors example_lib_simps example_cert_text)+
qed

section \<open>Properties of the Invoice Mapper\<close>






subsection \<open>Decimal fields\<close>


















subsection \<open>The date parser on well-formed dates\<close>





















subsection \<open>What the date parser accepts\<close>


















section \<open>Properties of the mapped model\<close>












section \<open>Properties of the Document Renderer and of the entry point\<close>

lemma no_totals_table:
  "filter (is_table_of totals_table) (header_band invoice p) = []"
  "filter (is_table_of totals_table) (parties_block invoice) = []"
  "filter (is_table_of totals_table) (items_block l invoice) = []"
  "filter (is_table_of totals_table) (additional_info_block invoice) = []"
  "filter (is_table_of totals_table) (legal_references_block invoice) = []"
  "filter (is_table_of totals_table) (signature_block invoice) = []"
  by (simp_all add: header_band_def parties_block_def items_block_def additional_info_block_def
        legal_references_block_def signature_block_def Let_def filter_map comp_def)

lemma totals_tables:
  "filter (is_table_of totals_table) (elements l invoice p)
     = filter (is_table_of totals_table) (totals_block invoice)"
  by (simp add: elements_def no_totals_table)

text \<open>
  C1 (as amended). For every invoice model and registry metadata: when the totals mapping
  of the model is not empty, the rendered document holds exactly one totals table, of six
  rows in this order: gross amount, general discounts, taxable base, tax output,
  withholdings, invoice total; each row is its label and the value of the field, or
  \<open>N/A\<close> when the mapping has no such field, the value right-aligned. When the totals
  mapping is empty the document holds no totals table.
\<close>

theorem totals_block_rendering:
  "(Totales invoice \<noteq> [] \<longrightarrow>
      filter (is_table_of totals_table) (elements l invoice p) =
        [Table
           [[[Paragraph ''<b>Importe bruto total:</b>'' styleN],
             [Paragraph (dict_get (Totales invoice) ''TotalGrossAmount'' ''N/A'') right_align_style]],
            [[Paragraph ''<b>Descuentos generales:</b>'' styleN],
             [Paragraph (dict_get (Totales invoice) ''TotalGeneralDiscounts'' ''N/A'') right_align_style]],
            [[Paragraph ''<b>Base imponible antes de impuestos:</b>'' styleN],
             [Paragraph (dict_get (Totales invoice) ''TotalGrossAmountBeforeTaxes'' ''N/A'') right_align_style]],
            [[Paragraph ''<b>Importe de impuestos:</b>'' styleN],
             [Paragraph (dict_get (Totales invoice) ''TotalTaxOutputs'' ''N/A'') right_align_style]],
            [[Paragraph ''<b>Retenciones:</b>'' styleN],
             [Paragraph (dict_get (Totales invoice) ''TotalTaxesWithheld'' ''N/A'') right_align_style]],
            [[Paragraph ''<b>Importe total factura:</b>'' styleN],
             [Paragraph (dict_get (Totales invoice) ''InvoiceTotal'' ''N/A'') right_align_style]]]
           totals_table])
   \<and> (Totales invoice = [] \<longrightarrow> filter (is_table_of totals_table) (elements l invoice p) = [])
   \<and> (map_of d k = None \<longrightarrow> dict_get d k ''N/A'' = ''N/A'')"
  by (simp add: totals_tables totals_block_def Let_def dict_get_def)

theorem totals_block_rendering_witness:
  "Totales example_invoice \<noteq> []
   \<and> map table_rows (filter (is_table_of totals_table) (elements example_lib example_invoice example_parametros))
       = [[[''<b>Importe bruto total:</b>'', ''100.00''],
           [''<b>Descuentos generales:</b>'', ''N/A''],
           [''<b>Base imponible antes de impuestos:</b>'', ''N/A''],
           [''<b>Importe de impuestos:</b>'', ''N/A''],
           [''<b>Retenciones:</b>'', ''N/A''],
           [''<b>Importe total factura:</b>'', ''121.00'']]]
   \<and> Totales (example_invoice\<lparr>Totales := []\<rparr>) = []
   \<and> filter (is_table_of totals_table)
         (elements example_lib (example_invoice\<lparr>Totales := []\<rparr>) example_parametros) = []
   \<and> map_of (Totales example_invoice) ''TotalTaxOutputs'' = None
   \<and> dict_get (Totales example_invoice) ''TotalTaxOutputs'' ''N/A'' = ''N/A''"
proof -
  have h1: "Totales example_invoice \<noteq> []" by (simp add: example_invoice_def)
  have h2: "Totales (example_invoice\<lparr>Totales := []\<rparr>) = []" by simp
  have h3: "map_of (Totales example_invoice) ''TotalTaxOutputs'' = None" by (simp add: example_invoice_def)
  have g: "dict_get (Totales example_invoice) ''TotalGrossAmount'' ''N/A'' = ''100.00''"
    "dict_get (Totales example_invoice) ''TotalGeneralDiscounts'' ''N/A'' = ''N/A''"
    "dict_get (Totales example_invoice) ''TotalGrossAmountBeforeTaxes'' ''N/A'' = ''N/A''"
    "dict_get (Totales example_invoice) ''TotalTaxesWithheld'' ''N/A'' = ''N/A''"
    "dict_get (Totales example_invoice) ''InvoiceTotal'' ''N/A'' = ''121.00''"
    by (simp_all add: example_invoice_def dict_get_def)
  note t1 = totals_block_rendering[where invoice = example_invoice and l = example_lib
      and p = example_parametros and d = "Totales example_invoice" and k = "''TotalTaxOutputs''"]
  from t1[THEN conjunct2, THEN conjunct2, rule_format, OF h3]
  have c: "dict_get (Totales example_invoice) ''TotalTaxOutputs'' ''N/A'' = ''N/A''" .
  from t1[THEN conjunct1, rule_format, OF h1]
  have a: "map table_rows (filter (is_table_of totals_table) (elements example_lib example_invoice example_parametros))
       = [[[''<b>Importe bruto total:</b>'', ''100.00''],
           [''<b>Descuentos generales:</b>'', ''N/A''],
           [''<b>Base imponible antes de impuestos:</b>'', ''N/A''],
           [''<b>Importe de impuestos:</b>'', ''N/A''],
           [''<b>Retenciones:</b>'', ''N/A''],
           [''<b>Importe total factura:</b>'', ''121.00'']]]"
    by (simp add: g c)
  note t2 = totals_block_rendering[where invoice = "example_invoice\<lparr>Totales := []\<rparr>" and l = example_lib
      and p = example_parametros and d = "Totales example_invoice" and k = "''TotalTaxOutputs''"]
  from t2[THEN conjunct2, THEN conjunct1, rule_format, OF h2]
  have b: "filter (is_table_of totals_table)
         (elements example_lib (example_invoice\<lparr>Totales := []\<rparr>) example_parametros) = []" .
  show ?thesis by (intro conjI) (rule h1 a h2 b h3 c)+
qed

theorem totals_block_rendering_counterexample:
  "filter (is_table_of totals_table)
     (elements example_lib (example_invoice\<lparr>Totales := []\<rparr>) example_parametros) = []
   \<and> map_of (Totales example_invoice) ''TotalOutstandingAmount'' = Some ''121.00''
   \<and> map_of (Totales example_invoice) ''TotalExecutableAmount'' = Some ''121.00''
   \<and> map (map hd) (map table_rows
         (filter (is_table_of totals_table) (elements example_lib example_invoice example_parametros)))
       = [[''<b>Importe bruto total:</b>'', ''<b>Descuentos generales:</b>'',
           ''<b>Base imponible antes de impuestos:</b>'', ''<b>Importe de impuestos:</b>'',
           ''<b>Retenciones:</b>'', ''<b>Importe total factura:</b>'']]"
  by (simp add: totals_tables totals_block_def Let_def example_invoice_def)

text \<open>
  C6 (as amended). The entry point raises the document-format error \<open>ValueError\<close> with
  the text of the empty-file message when the input is empty, and with the text of the
  invalid-file message followed by the parser's message when the extracted markup does
  not parse. In every other case the mapper and the assembly of the
  flowables cannot fail, and the outcome of the entry point is the outcome of the layout
  library on the complete list of flowables: the document it returns, or the exception
  it raises, which the entry point neither catches nor converts. The result is an error or
  a document, never both.
\<close>

theorem entry_point_outcomes:
  "(xsig_bytes = [] \<longrightarrow>
      render_pdf_from_xsig l now xsig_bytes nr tr rcf fhr
        = Inl (ValueError (''Archivo vac'' @ [i_acute] @ ''o o no legible.'')))
   \<and> (xsig_bytes \<noteq> [] \<and> fromstring l (extract_xml_from_xsig_bytes xsig_bytes) = Inl e \<longrightarrow>
      render_pdf_from_xsig l now xsig_bytes nr tr rcf fhr
        = Inl (ValueError (''El archivo no parece un XSIG/XML v'' @ [a_acute] @ ''lido: '' @ exn_msg e)))
   \<and> (xsig_bytes \<noteq> [] \<and> fromstring l (extract_xml_from_xsig_bytes xsig_bytes) = Inr root \<longrightarrow>
      render_pdf_from_xsig l now xsig_bytes nr tr rcf fhr
        = build l (elements l (extract_invoice_data_from_xml l now root)
            \<lparr>num_registro = nr, tipo_registro = tr, num_rcf = rcf,
             fecha_hora_registro = strftime_dmY_HM (fst fhr)\<rparr>))
   \<and> (xsig_bytes \<noteq> [] \<and> fromstring l (extract_xml_from_xsig_bytes xsig_bytes) = Inr root
        \<and> build l (elements l (extract_invoice_data_from_xml l now root)
            \<lparr>num_registro = nr, tipo_registro = tr, num_rcf = rcf,
             fecha_hora_registro = strftime_dmY_HM (fst fhr)\<rparr>) = Inr pdf \<longrightarrow>
      render_pdf_from_xsig l now xsig_bytes nr tr rcf fhr = Inr pdf)
   \<and> (xsig_bytes \<noteq> [] \<and> fromstring l (extract_xml_from_xsig_bytes xsig_bytes) = Inr root
        \<and> build l (elements l (extract_invoice_data_from_xml l now root)
            \<lparr>num_registro = nr, tipo_registro = tr, num_rcf = rcf,
             fecha_hora_registro = strftime_dmY_HM (fst fhr)\<rparr>) = Inl e' \<longrightarrow>
      render_pdf_from_xsig l now xsig_bytes nr tr rcf fhr = Inl e')"
  by (simp add: render_pdf_from_xsig_def generate_pdf_from_invoice_def Let_def)

lemma example_extracts:
  "extract_xml_from_xsig_bytes ''<Facturae/>'' = ''<Facturae/>''"
  "extract_xml_from_xsig_bytes ''junk'' = ''junk''"
  "extract_xml_from_xsig_bytes markup_bytes = markup_bytes"
  by code_simp+

lemma example_parses:
  "fromstring example_lib ''<Facturae/>'' = Inr (Element ''Facturae'' None [])"
  "fromstring example_lib ''junk'' = Inl (Exn ''ParseError'' ''syntax error: line 1, column 0'')"
  "fromstring markup_layout markup_bytes = Inr markup_document"
  by (simp_all add: example_lib_def markup_layout_def)

lemma example_builds:
  "build example_lib fs = Inr ''%PDF''"
  by (simp add: example_lib_def)

lemma markup_build:
  "build markup_layout
     (elements markup_layout
        (extract_invoice_data_from_xml markup_layout (2025, 6, 1, 0, 0, 0, 0) markup_document)
        \<lparr>num_registro = ''2025/000123'', tipo_registro = ''FACe'', num_rcf = ''RCF-1'',
         fecha_hora_registro = strftime_dmY_HM (fst (((2025, 3, 15, 10, 30, 0, 0), Some 60) :: aware_datetime))\<rparr>)
   = Inl (ValueError ''Parse error: saw </para> instead of expected </b>'')"
  by code_simp

lemma markup_nonempty: "markup_bytes \<noteq> []"
  by (simp add: markup_bytes_def)

theorem entry_point_outcomes_witness:
  "render_pdf_from_xsig example_lib (2025, 6, 1, 0, 0, 0, 0) [] ''2025/000123'' ''FACe'' ''RCF-1''
       ((2025, 3, 15, 10, 30, 0, 0), Some 60)
     = Inl (ValueError (''Archivo vac'' @ [i_acute] @ ''o o no legible.''))
   \<and> ''junk'' \<noteq> []
   \<and> fromstring example_lib (extract_xml_from_xsig_bytes ''junk'')
       = Inl (Exn ''ParseError'' ''syntax error: line 1, column 0'')
   \<and> render_pdf_from_xsig example_lib (2025, 6, 1, 0, 0, 0, 0) ''junk'' ''2025/000123'' ''FACe'' ''RCF-1''
       ((2025, 3, 15, 10, 30, 0, 0), Some 60)
     = Inl (ValueError (''El archivo no parece un XSIG/XML v'' @ [a_acute]
                        @ ''lido: syntax error: line 1, column 0''))
   \<and> ''<Facturae/>'' \<noteq> []
   \<and> fromstring example_lib (extract_xml_from_xsig_bytes ''<Facturae/>'') = Inr (Element ''Facturae'' None [])
   \<and> render_pdf_from_xsig example_lib (2025, 6, 1, 0, 0, 0, 0) ''<Facturae/>'' ''2025/000123'' ''FACe''
       ''RCF-1'' ((2025, 3, 15, 10, 30, 0, 0), Some 60) = Inr ''%PDF''
   \<and> markup_bytes \<noteq> []
   \<and> fromstring markup_layout (extract_xml_from_xsig_bytes markup_bytes) = Inr markup_document
   \<and> render_pdf_from_xsig markup_layout (2025, 6, 1, 0, 0, 0, 0) markup_bytes ''2025/000123'' ''FACe''
       ''RCF-1'' ((2025, 3, 15, 10, 30, 0, 0), Some 60)
     = Inl (ValueError ''Parse error: saw </para> instead of expected </b>'')"
proof -
  let ?now = "(2025, 6, 1, 0, 0, 0, 0) :: datetime"
  let ?fhr = "((2025, 3, 15, 10, 30, 0, 0), Some 60) :: aware_datetime"
  let ?root = "Element ''Facturae'' None []"
  let ?pe = "Exn ''ParseError'' ''syntax error: line 1, column 0''"
  let ?le = "ValueError ''Parse error: saw </para> instead of expected </b>''"
  have n1: "''junk'' \<noteq> []" and n2: "''<Facturae/>'' \<noteq> []" by simp_all
  have p1: "fromstring example_lib (extract_xml_from_xsig_bytes ''junk'') = Inl ?pe"
    unfolding example_extracts by (rule example_parses)
  have p2: "fromstring example_lib (extract_xml_from_xsig_bytes ''<Facturae/>'') = Inr ?root"
    unfolding example_extracts by (rule example_parses)
  have p3: "fromstring markup_layout (extract_xml_from_xsig_bytes markup_bytes) = Inr markup_document"
    unfolding example_extracts by (rule example_parses)
  note t0 = entry_point_outcomes[where xsig_bytes = "[]" and l = example_lib and now = ?now
      and nr = "''2025/000123''" and tr = "''FACe''" and rcf = "''RCF-1''" and fhr = ?fhr
      and e = ?pe and root = ?root and pdf = "''%PDF''" and e' = ?le]
  from t0[THEN conjunct1, rule_format, OF refl]
  have a: "render_pdf_from_xsig example_lib ?now [] ''2025/000123'' ''FACe'' ''RCF-1'' ?fhr
     = Inl (ValueError (''Archivo vac'' @ [i_acute] @ ''o o no legible.''))" .
  note t1 = entry_point_outcomes[where xsig_bytes = "''junk''" and l = example_lib and now = ?now
      and nr = "''2025/000123''" and tr = "''FACe''" and rcf = "''RCF-1''" and fhr = ?fhr
      and e = ?pe and root = ?root and pdf = "''%PDF''" and e' = ?le]
  from t1[THEN conjunct2, THEN conjunct1, rule_format, OF conjI[OF n1 p1]]
  have b: "render_pdf_from_xsig example_lib ?now ''junk'' ''2025/000123'' ''FACe'' ''RCF-1'' ?fhr
     = Inl (ValueError (''El archivo no parece un XSIG/XML v'' @ [a_acute]
                        @ ''lido: syntax error: line 1, column 0''))" by simp
  note t2 = entry_point_outcomes[where xsig_bytes = "''<Facturae/>''" and l = example_lib and now = ?now
      and nr = "''2025/000123''" and tr = "''FACe''" and rcf = "''RCF-1''" and fhr = ?fhr
      and e = ?pe and root = ?root and pdf = "''%PDF''" and e' = ?le]
  from t2[THEN conjunct2, THEN conjunct2, THEN conjunct2, THEN conjunct1, rule_format,
      OF conjI[OF n2 conjI[OF p2 example_builds]]]
  have c: "render_pdf_from_xsig example_lib ?now ''<Facturae/>'' ''2025/000123'' ''FACe'' ''RCF-1'' ?fhr
     = Inr ''%PDF''" .
  note t3 = entry_point_outcomes[where xsig_bytes = markup_bytes and l = markup_layout and now = ?now
      and nr = "''2025/000123''" and tr = "''FACe''" and rcf = "''RCF-1''" and fhr = ?fhr
      and e = ?pe and root = markup_document and pdf = "''%PDF''" and e' = ?le]
  from t3[THEN conjunct2, THEN conjunct2, THEN conjunct2, THEN conjunct2, rule_format,
      OF conjI[OF markup_nonempty conjI[OF p3 markup_build]]]
  have d: "render_pdf_from_xsig markup_layout ?now markup_bytes ''2025/000123'' ''FACe'' ''RCF-1'' ?fhr
     = Inl ?le" .
  show ?thesis by (intro conjI) (rule a n1 p1 b n2 p2 c markup_nonempty p3 d)+
qed

theorem entry_point_outcomes_counterexample:
  "markup_bytes \<noteq> []
   \<and> fromstring markup_layout (extract_xml_from_xsig_bytes markup_bytes) = Inr markup_document
   \<and> render_pdf_from_xsig markup_layout (2025, 6, 1, 0, 0, 0, 0) markup_bytes ''2025/000123'' ''FACe''
       ''RCF-1'' ((2025, 3, 15, 10, 30, 0, 0), Some 60)
     = Inl (ValueError ''Parse error: saw </para> instead of expected </b>'')"
  using markup_nonempty markup_build
  by (simp add: example_extracts example_parses render_pdf_from_xsig_def
        generate_pdf_from_invoice_def Let_def)

end
